theory Spec2Isabelle
  imports Complex_Main "HOL-Library.AList"
begin

section \<open>Shipping-quote aggregation of the checkout router\<close>

text \<open>
  The development embeds the shipping half of the checkout router: the three carrier
  clients \<open>getDomesticShippingServices\<close>, \<open>getAusPostInternationalShippingServices\<close>,
  \<open>getInterparcelShippingServices\<close> and the procedure \<open>getShippingServices\<close> that
  selects between them.

  Conventions of the embedding.
  \<^item> A thrown JavaScript \<open>Error\<close> is a value \<open>Error msg\<close>; a function that may throw
    returns \<open>error + 'a\<close> with \<open>Inl\<close> for the exception.
  \<^item> Every client returns a pair: the list of events it caused (each \<open>fetch\<close> it issued,
    each \<open>console.error\<close> it wrote) and its result.
  \<^item> Everything outside the router is a field of the environment record \<open>env\<close>: the
    answers of the carriers' HTTP endpoints, and the results of the platform functions
    \<open>Number\<close>, \<open>Math.ceil\<close>, \<open>new URL\<close> and of the regular-expression match. The
    theorems quantify over the environment, so they hold whatever the carriers answer.
  \<^item> The numbers of the validated input (\<open>weight\<close>, \<open>length\<close>, \<open>width\<close>,
    \<open>height\<close>) are finite doubles (zod's \<open>z.number()\<close> rejects \<open>NaN\<close>): a double is
    the real it denotes, comparisons are those of the reals, and an addition of doubles
    is the exact sum rounded by \<open>binary64\<close>. \<open>toString\<close> on them is left implicit: a
    request records the number that is printed into the URL.
  \<^item> Prices and amounts are of an arbitrary type \<open>'n\<close> of JavaScript numbers, on
    which only the environment computes; \<open>Number\<close> of a value that is a number already
    is left out. \<open>binary64Env\<close> is the environment that computes them as the platform does,
    in doubles.
  \<^item> A string is a JavaScript string whose code units are all below 256, one character
    for each code unit; \<open>toLowerCase\<close> and \<open>trim\<close> are those of the platform on such
    strings.
\<close>

subsection \<open>Data\<close>

text \<open>
  The records keep the fields the router reads. Four fields are renamed, since their
  names are taken in HOL or by another record: \<open>length\<close> of the input is
  \<open>length_dim\<close>, \<open>type\<close> of a shipping rate is \<open>rate_type\<close>, \<open>id\<close> of a listed
  freight service is \<open>service_id\<close>, \<open>name\<close> of a quoted freight service is
  \<open>quoted_name\<close>.
\<close>

datatype error = Error string

record AusPostShippingService =
  code :: string
  name :: string
  price :: string

record 'n fixed_amount_data =
  amount :: 'n
  currency :: string

record 'n shipping_rate =
  rate_type :: string
  fixed_amount :: "'n fixed_amount_data"
  display_name :: string

record 'n StripeShippingOption =
  shipping_rate_data :: "'n shipping_rate"

record InterparcelShippingService =
  service_id :: string
  service :: string

record InterparcelShippingServicesResponse =
  errorMessage :: string
  services :: "InterparcelShippingService list"

record 'n InterparcelQuotedService =
  carrier :: string
  quoted_name :: string
  sellPrice :: 'n

text \<open>\<open>quoted_services\<close> is \<open>None\<close> when the payload has no \<open>services\<close> member.\<close>

record 'n InterparcelShippingQuote =
  quoted_services :: "'n InterparcelQuotedService list option"

record ShippingServicesInput =
  weight :: real
  length_dim :: real
  width :: real
  height :: real
  destinationCountry :: string
  destinationPostcode :: "string option"
  destinationCity :: "string option"
  destinationState :: "string option"
  b2b :: bool

record address =
  addrOne :: string
  addrTwo :: string
  postcode :: string
  city :: string
  state :: string
  country :: string

definition partedEuroAddress :: address where
  "partedEuroAddress =
     \<lparr>addrOne = ''26 Rushdale Street'', addrTwo = ''2'', postcode = ''3180'',
      city = ''Knoxfield'', state = ''VIC'', country = ''AU''\<rparr>"

definition supportedShippingMethods :: "string list" where
  "supportedShippingMethods = [''Standard'', ''Express'']"

definition pickupShippingOption :: "('n::zero) StripeShippingOption" where
  "pickupShippingOption =
     \<lparr>shipping_rate_data =
        \<lparr>rate_type = ''fixed_amount'',
         fixed_amount = \<lparr>amount = 0, currency = ''aud''\<rparr>,
         display_name = ''Pickup from Parted Euro''\<rparr>\<rparr>"

definition adminShippingOption :: "('n::one) StripeShippingOption" where
  "adminShippingOption =
     \<lparr>shipping_rate_data =
        \<lparr>rate_type = ''fixed_amount'',
         fixed_amount = \<lparr>amount = 1, currency = ''aud''\<rparr>,
         display_name = ''Admin Shipping''\<rparr>\<rparr>"

subsection \<open>Requests, events and the environment\<close>

text \<open>
  The query of the two freight-broker API calls: the keys \<open>pkg[0][0]\<close> to
  \<open>pkg[0][3]\<close> and the route. The order of the keys, which differs between the two
  branches of the source, is not kept.
\<close>

record interparcel_params =
  pkg_0_0 :: real
  pkg_0_1 :: real
  pkg_0_2 :: real
  pkg_0_3 :: real
  source :: string
  coll_country :: string
  coll_state :: string
  coll_city :: string
  coll_postcode :: string
  del_postcode :: string
  del_city :: string
  del_state :: string
  del_country :: string

text \<open>The query of the quote page: \<open>p_weight\<close> to \<open>p_height\<close> are the parts of \<open>p\<close>,
  \<open>p_t\<close> to \<open>p_dc\<close> the keys \<open>t\<close> to \<open>dc\<close>.\<close>

record quote_page_params =
  p_weight :: real
  p_length :: real
  p_width :: real
  p_height :: real
  p_t :: string
  p_ct :: string
  p_cs :: string
  p_cp :: string
  p_cc :: string
  p_dt :: string
  p_ds :: string
  p_dp :: string
  p_dc :: string

datatype url = SelectService quote_page_params | Url string

type_synonym cookie_jar = "(string \<times> string) list"

datatype request =
    DomesticReq real real real real string "string option"
  | InternationalReq string real
  | AvailabilityReq interparcel_params string
  | QuotePageReq url cookie_jar
  | QuoteReq interparcel_params string string string

datatype event = Fetch request | ConsoleError string string

datatype carrier = DomesticPostal | InternationalPostal | FreightBroker

fun carrier_of :: "request \<Rightarrow> carrier" where
  "carrier_of (DomesticReq l w h wt p1 p2) = DomesticPostal"
| "carrier_of (InternationalReq c wt) = InternationalPostal"
| "carrier_of (AvailabilityReq ps ty) = FreightBroker"
| "carrier_of (QuotePageReq u jar) = FreightBroker"
| "carrier_of (QuoteReq ps sid ck tok) = FreightBroker"

fun invoked :: "event list \<Rightarrow> carrier list" where
  "invoked [] = []"
| "invoked (Fetch r # es) = carrier_of r # invoked es"
| "invoked (ConsoleError a b # es) = invoked es"

record page_response =
  status :: int
  set_cookie :: "string list"
  location :: "string option"
  text_body :: "error + string"

record 'n quote_response =
  ok :: bool
  json :: "error + 'n InterparcelShippingQuote"

text \<open>
  \<open>fetchServices\<close> stands for the \<open>fetch\<close> of an AusPost endpoint, \<open>res.json()\<close> and
  the read of \<open>data.services.service\<close>: it gives the exception when one of the three
  throws. \<open>fetchQuotePage\<close> and \<open>fetchQuote\<close> take the index of the call as well, since
  the same request may be answered differently each time. \<open>set_cookie\<close> of a page
  response is the result of \<open>parseSetCookieHeaders\<close> on its headers.
  \<open>ceil_x100 x\<close> is \<open>Math.ceil(x * 100)\<close>, \<open>matchCsrfMeta html\<close> the first group of the
  match of the \<open>csrf-token\<close> pattern against the page, \<open>newURL loc base\<close> is
  \<open>new URL(loc, base).toString()\<close>.
\<close>

record 'n env =
  Number_of :: "string \<Rightarrow> 'n"
  ceil_x100 :: "'n \<Rightarrow> 'n"
  matchCsrfMeta :: "string \<Rightarrow> string option"
  newURL :: "string \<Rightarrow> url \<Rightarrow> error + string"
  fetchServices :: "request \<Rightarrow> error + AusPostShippingService list"
  fetchAvailability :: "request \<Rightarrow> error + InterparcelShippingServicesResponse"
  fetchQuotePage :: "nat \<Rightarrow> request \<Rightarrow> error + page_response"
  fetchQuote :: "nat \<Rightarrow> request \<Rightarrow> error + 'n quote_response"

subsection \<open>String helpers\<close>

text \<open>\<open>includes_str s x\<close> is \<open>s.includes(x)\<close>.\<close>

fun includes_str :: "string \<Rightarrow> string \<Rightarrow> bool" where
  "includes_str [] x = (x = [])"
| "includes_str (c # cs) x = (take (length x) (c # cs) = x \<or> includes_str cs x)"

text \<open>
  The letters with a lower case among the code units below 256: \<open>A\<close> to \<open>Z\<close>, and
  U+00C0 to U+00DE without the multiplication sign U+00D7.
\<close>

definition upperCaseLetters :: string where
  "upperCaseLetters =
     ''ABCDEFGHIJKLMNOPQRSTUVWXYZ'' @
     [CHR 0xC0, CHR 0xC1, CHR 0xC2, CHR 0xC3, CHR 0xC4, CHR 0xC5, CHR 0xC6,
      CHR 0xC7, CHR 0xC8, CHR 0xC9, CHR 0xCA, CHR 0xCB, CHR 0xCC, CHR 0xCD,
      CHR 0xCE, CHR 0xCF, CHR 0xD0, CHR 0xD1, CHR 0xD2, CHR 0xD3, CHR 0xD4,
      CHR 0xD5, CHR 0xD6, CHR 0xD8, CHR 0xD9, CHR 0xDA, CHR 0xDB, CHR 0xDC,
      CHR 0xDD, CHR 0xDE]"

definition lowerCaseLetters :: string where
  "lowerCaseLetters =
     ''abcdefghijklmnopqrstuvwxyz'' @
     [CHR 0xE0, CHR 0xE1, CHR 0xE2, CHR 0xE3, CHR 0xE4, CHR 0xE5, CHR 0xE6,
      CHR 0xE7, CHR 0xE8, CHR 0xE9, CHR 0xEA, CHR 0xEB, CHR 0xEC, CHR 0xED,
      CHR 0xEE, CHR 0xEF, CHR 0xF0, CHR 0xF1, CHR 0xF2, CHR 0xF3, CHR 0xF4,
      CHR 0xF5, CHR 0xF6, CHR 0xF8, CHR 0xF9, CHR 0xFA, CHR 0xFB, CHR 0xFC,
      CHR 0xFD, CHR 0xFE]"

definition toLowerCase_char :: "char \<Rightarrow> char" where
  "toLowerCase_char c =
     (case map_of (zip upperCaseLetters lowerCaseLetters) c of
        Some d \<Rightarrow> d
      | None \<Rightarrow> c)"

definition toLowerCase :: "string \<Rightarrow> string" where
  "toLowerCase s = map toLowerCase_char s"

text \<open>
  The white space and line terminators below 256: tab, line feed, vertical tab, form
  feed, carriage return, space and the no-break space U+00A0.
\<close>

definition is_space :: "char \<Rightarrow> bool" where
  "is_space c =
     (c \<in> set [CHR 0x09, CHR 0x0A, CHR 0x0B, CHR 0x0C, CHR 0x0D, CHR '' '', CHR 0xA0])"

definition trim :: "string \<Rightarrow> string" where
  "trim s = rev (dropWhile is_space (rev (dropWhile is_space s)))"

fun join :: "string \<Rightarrow> string list \<Rightarrow> string" where
  "join sep [] = []"
| "join sep [x] = x"
| "join sep (x # y # ys) = x @ sep @ join sep (y # ys)"

text \<open>\<open>orEmpty x\<close> is \<open>x ?? ""\<close>; \<open>truthy\<close> is the truth value of an optional string.\<close>

definition orEmpty :: "string option \<Rightarrow> string" where
  "orEmpty x = (case x of None \<Rightarrow> [] | Some s \<Rightarrow> s)"

definition truthy :: "string option \<Rightarrow> bool" where
  "truthy x = (case x of None \<Rightarrow> False | Some s \<Rightarrow> s \<noteq> [])"

subsection \<open>Doubles\<close>

text \<open>
  \<open>exponent2 x\<close> is the binary exponent of a positive real: \<open>2 ^ exponent2 x \<le> x <
  2 ^ (exponent2 x + 1)\<close>. \<open>binary64 x\<close> is the real \<open>x\<close> rounded to the nearest
  number with a significand of 53 bits and an exponent of at least \<open>-1022\<close>, ties to
  the even significand: the result of an operation on doubles whose exact result is
  \<open>x\<close>, as long as it does not overflow.
\<close>

function exp_up :: "real \<Rightarrow> int" where
  "exp_up x = (if x \<ge> 2 then exp_up (x / 2) + 1 else 0)"
  by pat_completeness auto
termination
proof (relation "measure (\<lambda>x. nat \<lfloor>x\<rfloor>)")
  show "wf (measure (\<lambda>x. nat \<lfloor>x\<rfloor>))" by simp
next
  fix x :: real assume x: "2 \<le> x"
  have "\<lfloor>x / 2\<rfloor> < \<lfloor>x\<rfloor>"
  proof -
    have "x / 2 \<le> x - 1" using x by simp
    then have "\<lfloor>x / 2\<rfloor> \<le> \<lfloor>x - 1\<rfloor>" by (rule floor_mono)
    then show ?thesis by simp
  qed
  moreover have "0 < \<lfloor>x\<rfloor>" using x by simp
  ultimately show "(x / 2, x) \<in> measure (\<lambda>x. nat \<lfloor>x\<rfloor>)" by simp
qed

function exp_down :: "real \<Rightarrow> int" where
  "exp_down x = (if 0 < x \<and> x < 1 then exp_down (x * 2) - 1 else 0)"
  by pat_completeness auto
termination
proof (relation "measure (\<lambda>x. nat \<lceil>1 / x\<rceil>)")
  show "wf (measure (\<lambda>x. nat \<lceil>1 / x\<rceil>))" by simp
next
  fix x :: real assume x: "0 < x \<and> x < 1"
  then have y: "1 / x > 1" by simp
  have "\<lceil>1 / (x * 2)\<rceil> < \<lceil>1 / x\<rceil>"
  proof -
    have c: "2 \<le> \<lceil>1 / x\<rceil>" using y by linarith
    have "1 / (x * 2) = (1 / x) / 2" by simp
    also have "\<dots> \<le> of_int \<lceil>1 / x\<rceil> / 2" by (simp add: divide_right_mono)
    also have "\<dots> \<le> of_int (\<lceil>1 / x\<rceil> - 1)" using c by simp
    finally have "1 / (x * 2) \<le> of_int (\<lceil>1 / x\<rceil> - 1)" .
    then have "\<lceil>1 / (x * 2)\<rceil> \<le> \<lceil>1 / x\<rceil> - 1" by (simp only: ceiling_le_iff)
    then show ?thesis by simp
  qed
  moreover have "0 < \<lceil>1 / x\<rceil>" using y by linarith
  ultimately show "(x * 2, x) \<in> measure (\<lambda>x. nat \<lceil>1 / x\<rceil>)" by simp
qed

declare exp_up.simps [simp del]

declare exp_down.simps [simp del]

definition exponent2 :: "real \<Rightarrow> int" where
  "exponent2 x = (if x \<ge> 1 then exp_up x else exp_down x)"

definition pow2 :: "int \<Rightarrow> real" where
  "pow2 k = (if k \<ge> 0 then 2 ^ nat k else 1 / 2 ^ nat (- k))"

definition roundTiesToEven :: "real \<Rightarrow> int" where
  "roundTiesToEven y =
     (let f = \<lfloor>y\<rfloor>
      in if y - of_int f < 1 / 2 then f
         else if y - of_int f > 1 / 2 then f + 1
         else if even f then f else f + 1)"

definition binary64 :: "real \<Rightarrow> real" where
  "binary64 x =
     (if x = 0 then 0
      else (let q = pow2 (max (exponent2 \<bar>x\<bar> - 52) (- 1074))
            in of_int (roundTiesToEven (x / q)) * q))"

text \<open>
  A JavaScript number is a finite double or \<open>NotFinite\<close>, which stands for \<open>NaN\<close> and
  the two infinities; the two zeros are one. \<open>toDouble x\<close> is the double for an exact
  result \<open>x\<close>, with the overflow to an infinity.
\<close>

datatype jsnum = Num real | NotFinite

definition toDouble :: "real \<Rightarrow> jsnum" where
  "toDouble v = (let r = binary64 v in if \<bar>r\<bar> \<ge> 2 ^ 1024 then NotFinite else Num r)"

text \<open>
  \<open>Number_js s\<close> is \<open>Number(s)\<close> on a string: the string is trimmed; the empty string
  is 0; a literal with prefix \<open>0x\<close>, \<open>0o\<close> or \<open>0b\<close>, or a decimal literal with an
  optional sign, fraction and exponent, is the double nearest to its value; anything
  else, and \<open>Infinity\<close>, is not finite. \<open>ceil_x100_js x\<close> is \<open>Math.ceil(x * 100)\<close>.
\<close>

definition digitValue :: "char \<Rightarrow> nat option" where
  "digitValue c =
     map_of
       [(CHR ''0'', 0), (CHR ''1'', 1), (CHR ''2'', 2), (CHR ''3'', 3), (CHR ''4'', 4),
        (CHR ''5'', 5), (CHR ''6'', 6), (CHR ''7'', 7), (CHR ''8'', 8), (CHR ''9'', 9),
        (CHR ''a'', 10), (CHR ''b'', 11), (CHR ''c'', 12), (CHR ''d'', 13), (CHR ''e'', 14),
        (CHR ''f'', 15), (CHR ''A'', 10), (CHR ''B'', 11), (CHR ''C'', 12), (CHR ''D'', 13),
        (CHR ''E'', 14), (CHR ''F'', 15)] c"

definition digitsValue :: "nat \<Rightarrow> string \<Rightarrow> nat option" where
  "digitsValue b s =
     (if s = [] then None
      else foldl (\<lambda>acc c. case (acc, digitValue c) of
                            (Some a, Some d) \<Rightarrow> if d < b then Some (a * b + d) else None
                          | _ \<Rightarrow> None)
             (Some 0) s)"

definition isDigit :: "char \<Rightarrow> bool" where
  "isDigit c = (c \<in> set ''0123456789'')"

definition scale10 :: "nat \<Rightarrow> int \<Rightarrow> real" where
  "scale10 m k = (if k \<ge> 0 then of_nat m * 10 ^ nat k else of_nat m / 10 ^ nat (- k))"

definition parseExponent :: "string \<Rightarrow> int option" where
  "parseExponent s =
     (case s of
        [] \<Rightarrow> Some 0
      | c # r \<Rightarrow>
          if c = CHR ''e'' \<or> c = CHR ''E''
          then (case r of
                  d # ds \<Rightarrow>
                    if d = CHR ''-'' then map_option (\<lambda>n. - int n) (digitsValue 10 ds)
                    else if d = CHR ''+'' then map_option int (digitsValue 10 ds)
                    else map_option int (digitsValue 10 r)
                | [] \<Rightarrow> None)
          else None)"

definition parseUnsignedDecimal :: "string \<Rightarrow> real option" where
  "parseUnsignedDecimal u =
     (let ip = takeWhile isDigit u;
          r1 = dropWhile isDigit u;
          fp = (case r1 of c # r \<Rightarrow> if c = CHR ''.'' then takeWhile isDigit r else [] | [] \<Rightarrow> []);
          r2 = (case r1 of c # r \<Rightarrow> if c = CHR ''.'' then dropWhile isDigit r else r1 | [] \<Rightarrow> [])
      in if ip = [] \<and> fp = [] then None
         else (case (digitsValue 10 (ip @ fp), parseExponent r2) of
                 (Some m, Some k) \<Rightarrow> Some (scale10 m (k - int (length fp)))
               | _ \<Rightarrow> None))"

definition parseNumeric :: "string \<Rightarrow> real option" where
  "parseNumeric t =
     (case t of
        c # d # r \<Rightarrow>
          if c = CHR ''0'' \<and> (d = CHR ''x'' \<or> d = CHR ''X'')
          then map_option of_nat (digitsValue 16 r)
          else if c = CHR ''0'' \<and> (d = CHR ''o'' \<or> d = CHR ''O'')
          then map_option of_nat (digitsValue 8 r)
          else if c = CHR ''0'' \<and> (d = CHR ''b'' \<or> d = CHR ''B'')
          then map_option of_nat (digitsValue 2 r)
          else if c = CHR ''-'' then map_option uminus (parseUnsignedDecimal (d # r))
          else if c = CHR ''+'' then parseUnsignedDecimal (d # r)
          else parseUnsignedDecimal t
      | _ \<Rightarrow> parseUnsignedDecimal t)"

definition Number_js :: "string \<Rightarrow> jsnum" where
  "Number_js s =
     (let t = trim s
      in if t = [] then Num 0
         else (case parseNumeric t of None \<Rightarrow> NotFinite | Some v \<Rightarrow> toDouble v))"

definition ceil_x100_js :: "jsnum \<Rightarrow> jsnum" where
  "ceil_x100_js n =
     (case n of
        NotFinite \<Rightarrow> NotFinite
      | Num x \<Rightarrow>
          (case toDouble (x * 100) of
             NotFinite \<Rightarrow> NotFinite
           | Num y \<Rightarrow> Num (of_int \<lceil>y\<rceil>)))"

subsection \<open>The domestic-postal client\<close>

text \<open>
  \<open>find_price c ss\<close> is \<open>ss.find((service) => service.code === c)?.price\<close>. The
  test \<open>!express || !regular\<close> holds when a price is undefined or the empty string.
\<close>

definition find_price :: "string \<Rightarrow> AusPostShippingService list \<Rightarrow> string option" where
  "find_price c ss = map_option price (find (\<lambda>s. code s = c) ss)"

definition fixedAmountOption :: "'n \<Rightarrow> string \<Rightarrow> 'n StripeShippingOption" where
  "fixedAmountOption a n =
     \<lparr>shipping_rate_data =
        \<lparr>rate_type = ''fixed_amount'',
         fixed_amount = \<lparr>amount = a, currency = ''AUD''\<rparr>,
         display_name = n\<rparr>\<rparr>"

definition getDomesticShippingServices ::
  "'n env \<Rightarrow> ShippingServicesInput \<Rightarrow> event list \<times> (error + 'n StripeShippingOption list)" where
  "getDomesticShippingServices e input =
     (let req = DomesticReq (length_dim input) (width input) (height input) (weight input)
                  (postcode partedEuroAddress) (destinationPostcode input)
      in case fetchServices e req of
           Inl err \<Rightarrow> ([Fetch req], Inl err)
         | Inr ss \<Rightarrow>
             (case (find_price ''AUS_PARCEL_EXPRESS'' ss, find_price ''AUS_PARCEL_REGULAR'' ss) of
                (Some express, Some regular) \<Rightarrow>
                  if express = [] \<or> regular = []
                  then ([Fetch req], Inl (Error ''Shipping not available''))
                  else ([Fetch req],
                        Inr [fixedAmountOption (ceil_x100 e (Number_of e regular))
                               ''AusPost Regular'',
                             fixedAmountOption (ceil_x100 e (Number_of e express))
                               ''AusPost Express''])
              | _ \<Rightarrow> ([Fetch req], Inl (Error ''Shipping not available''))))"

subsection \<open>The international-postal client\<close>

definition getAusPostInternationalShippingServices ::
  "'n env \<Rightarrow> ShippingServicesInput \<Rightarrow> event list \<times> (error + 'n StripeShippingOption list)" where
  "getAusPostInternationalShippingServices e input =
     (let req = InternationalReq (destinationCountry input) (weight input)
      in case fetchServices e req of
           Inl err \<Rightarrow> ([Fetch req], Inl err)
         | Inr ss \<Rightarrow>
             ([Fetch req],
              Inr (filter
                     (\<lambda>s. display_name (shipping_rate_data s) \<in> set supportedShippingMethods)
                     (map (\<lambda>s. fixedAmountOption (ceil_x100 e (Number_of e (price s))) (name s))
                        ss))))"

subsection \<open>The freight-broker client\<close>

text \<open>
  The sums \<open>length + 30\<close>, \<open>width + 30\<close> and \<open>height + 10\<close> are sums of doubles;
  a finite double plus 30 does not overflow.
\<close>

definition interparcelParams :: "ShippingServicesInput \<Rightarrow> interparcel_params" where
  "interparcelParams input =
     (if weight input > 35
      then \<lparr>pkg_0_0 = weight input,
            pkg_0_1 = binary64 (length_dim input + 30),
            pkg_0_2 = binary64 (width input + 30),
            pkg_0_3 = binary64 (height input + 10),
            source = ''booking'',
            coll_country = ''Australia'',
            coll_state = state partedEuroAddress,
            coll_city = city partedEuroAddress,
            coll_postcode = postcode partedEuroAddress,
            del_postcode = orEmpty (destinationPostcode input),
            del_city = orEmpty (destinationCity input),
            del_state = orEmpty (destinationState input),
            del_country = destinationCountry input\<rparr>
      else \<lparr>pkg_0_0 = weight input,
            pkg_0_1 = length_dim input,
            pkg_0_2 = width input,
            pkg_0_3 = height input,
            source = ''booking'',
            coll_country = ''Australia'',
            coll_state = state partedEuroAddress,
            coll_city = city partedEuroAddress,
            coll_postcode = postcode partedEuroAddress,
            del_postcode = orEmpty (destinationPostcode input),
            del_city = orEmpty (destinationCity input),
            del_state = orEmpty (destinationState input),
            del_country = destinationCountry input\<rparr>)"

definition shipmentType :: "ShippingServicesInput \<Rightarrow> string" where
  "shipmentType input = (if weight input \<ge> 35 then ''pallet'' else ''parcel'')"

definition quotePageParams :: "ShippingServicesInput \<Rightarrow> quote_page_params" where
  "quotePageParams input =
     \<lparr>p_weight = weight input,
      p_length = length_dim input,
      p_width = width input,
      p_height = height input,
      p_t = shipmentType input,
      p_ct = city partedEuroAddress,
      p_cs = state partedEuroAddress,
      p_cp = postcode partedEuroAddress,
      p_cc = ''Australia'',
      p_dt = orEmpty (destinationCity input),
      p_ds = orEmpty (destinationState input),
      p_dp = orEmpty (destinationPostcode input),
      p_dc = destinationCountry input\<rparr>"

text \<open>
  One \<open>Set-Cookie\<close> value is stored into the jar: the part before the first \<open>;\<close>,
  trimmed, is split at its first \<open>=\<close>, and kept when the name is not empty. The jar is
  the list of the own properties of the source's object in the order of their creation.
  An assignment to the name \<open>__proto__\<close> creates no property of a plain object.
\<close>

definition storeCookie :: "cookie_jar \<Rightarrow> string \<Rightarrow> cookie_jar" where
  "storeCookie jar sc =
     (let first = trim (takeWhile (\<lambda>c. c \<noteq> CHR '';'') sc);
          nm = takeWhile (\<lambda>c. c \<noteq> CHR ''='') first
      in if first = [] then jar
         else if CHR ''='' \<in> set first \<and> nm \<noteq> [] \<and> nm \<noteq> ''__proto__''
              then AList.update nm (drop (length nm + 1) first) jar
              else jar)"

text \<open>
  \<open>entries jar\<close> is \<open>Object.entries(cookieJar)\<close>: the names that are array indices
  (decimal numerals below \<open>2 ^ 32 - 1\<close> with no leading zero) come first, in ascending
  order, then the other names in the order of their creation.
\<close>

definition arrayIndex :: "string \<Rightarrow> nat option" where
  "arrayIndex k =
     (case digitsValue 10 k of
        None \<Rightarrow> None
      | Some n \<Rightarrow> if (k = ''0'' \<or> take 1 k \<noteq> ''0'') \<and> n < 2 ^ 32 - 1 then Some n else None)"

definition entries :: "cookie_jar \<Rightarrow> cookie_jar" where
  "entries jar =
     sort_key (\<lambda>(k, v). case arrayIndex k of Some n \<Rightarrow> n | None \<Rightarrow> 0)
       (filter (\<lambda>(k, v). arrayIndex k \<noteq> None) jar) @
     filter (\<lambda>(k, v). arrayIndex k = None) jar"

definition cookieHeader :: "cookie_jar \<Rightarrow> string" where
  "cookieHeader jar = join ''; '' (map (\<lambda>(k, v). k @ ''='' @ v) (entries jar))"

definition redirectTarget :: "page_response \<Rightarrow> string option" where
  "redirectTarget res =
     (if status res \<ge> 300 \<and> status res < 400 \<and> truthy (location res)
      then location res else None)"

text \<open>
  The loop \<open>for (let i = 0; i < 5; i++)\<close> that follows the redirects of the quote page.
  It ends with the jar and the page, with the empty page after five redirects.
\<close>

function quotePageLoop ::
  "'n env \<Rightarrow> nat \<Rightarrow> url \<Rightarrow> cookie_jar \<Rightarrow> event list \<times> (error + cookie_jar \<times> string)" where
  "quotePageLoop e i nextUrl cookieJar =
     (if i < 5
      then (let req = QuotePageReq nextUrl cookieJar
            in case fetchQuotePage e i req of
                 Inl err \<Rightarrow> ([Fetch req], Inl err)
               | Inr res \<Rightarrow>
                   (let jar = foldl storeCookie cookieJar (set_cookie res)
                    in case redirectTarget res of
                         Some loc \<Rightarrow>
                           (case newURL e loc nextUrl of
                              Inl err \<Rightarrow> ([Fetch req], Inl err)
                            | Inr u \<Rightarrow>
                                apfst ((#) (Fetch req)) (quotePageLoop e (i + 1) (Url u) jar))
                       | None \<Rightarrow>
                           (case text_body res of
                              Inl err \<Rightarrow> ([Fetch req], Inl err)
                            | Inr html \<Rightarrow> ([Fetch req], Inr (jar, html)))))
      else ([], Inr (cookieJar, [])))"
  by pat_completeness auto
termination
  by (relation "measure (\<lambda>(e, i, u, j). 5 - i)") auto

declare quotePageLoop.simps [simp del]

definition phpSessId :: "cookie_jar \<Rightarrow> string option" where
  "phpSessId jar =
     (case map_of jar ''PHPSESSID'' of
        Some v \<Rightarrow> Some v
      | None \<Rightarrow>
          (case map_of jar ''phpsessid'' of
             Some v \<Rightarrow> Some v
           | None \<Rightarrow>
               (case map_of jar ''PhpSessId'' of
                  Some v \<Rightarrow> Some v
                | None \<Rightarrow> map_of jar ''phpsessionid'')))"

text \<open>
  The first part of the client, up to the check of the token: the availability call and
  the session. It gives the services the provider lists, the \<open>Cookie\<close> header and the token.
\<close>

definition interparcelSession ::
  "'n env \<Rightarrow> ShippingServicesInput \<Rightarrow>
   event list \<times> (error + InterparcelShippingService list \<times> string \<times> string)" where
  "interparcelSession e input =
     (let req = AvailabilityReq (interparcelParams input) (shipmentType input)
      in case fetchAvailability e req of
           Inl err \<Rightarrow> ([Fetch req], Inl err)
         | Inr avail \<Rightarrow>
             if errorMessage avail \<noteq> []
             then ([Fetch req], Inl (Error (errorMessage avail)))
             else (case quotePageLoop e 0 (SelectService (quotePageParams input)) [] of
                     (evs, Inl err) \<Rightarrow> (Fetch req # evs, Inl err)
                   | (evs, Inr (cookieJar, quotePageHtml)) \<Rightarrow>
                       if \<not> truthy (phpSessId cookieJar)
                       then (Fetch req # evs,
                             Inl (Error ''PHPSESSID not found in Interparcel response''))
                       else (case matchCsrfMeta e quotePageHtml of
                               None \<Rightarrow>
                                 (Fetch req # evs,
                                  Inl (Error ''Failed to obtain CSRF token from Interparcel''))
                             | Some csrfToken \<Rightarrow>
                                 if csrfToken = []
                                 then (Fetch req # evs,
                                       Inl (Error ''Failed to obtain CSRF token from Interparcel''))
                                 else (Fetch req # evs,
                                       Inr (services avail, cookieHeader cookieJar, csrfToken)))))"

definition candidateServices ::
  "bool \<Rightarrow> InterparcelShippingService list \<Rightarrow> InterparcelShippingService list" where
  "candidateServices isB2b svcs =
     filter (\<lambda>s. isB2b \<or> \<not> includes_str (toLowerCase (service s)) ''b2b'')
       (filter (\<lambda>s. \<not> includes_str (service s) ''Hunter'') svcs)"

text \<open>
  The value one per-service promise is fulfilled with: \<open>None\<close> is the source's \<open>null\<close>.
  The \<open>catch\<close> of the callback turns every exception into \<open>null\<close>.
\<close>

definition settleQuote :: "'n env \<Rightarrow> nat \<Rightarrow> request \<Rightarrow> 'n StripeShippingOption option" where
  "settleQuote e i req =
     (case fetchQuote e i req of
        Inl err \<Rightarrow> None
      | Inr response \<Rightarrow>
          if \<not> ok response then None
          else (case json response of
                  Inl err \<Rightarrow> None
                | Inr quote \<Rightarrow>
                    (case quoted_services quote of
                       None \<Rightarrow> None
                     | Some [] \<Rightarrow> None
                     | Some (q # qs) \<Rightarrow>
                         Some (fixedAmountOption (ceil_x100 e (sellPrice q))
                                 (carrier q @ '' - '' @ quoted_name q)))))"

text \<open>The second part of the client: the per-service calls, settled and filtered.\<close>

definition interparcelQuotes ::
  "'n env \<Rightarrow> interparcel_params \<Rightarrow> bool \<Rightarrow> InterparcelShippingService list \<Rightarrow> string \<Rightarrow> string \<Rightarrow>
   event list \<times> (error + 'n StripeShippingOption list)" where
  "interparcelQuotes e params isB2b svcs cookie csrfToken =
     (let requests = map (\<lambda>s. QuoteReq params (service_id s) cookie csrfToken)
                       (candidateServices isB2b svcs);
          availableServices = map (\<lambda>(i, req). settleQuote e i req) (enumerate 0 requests);
          validServices = map the (filter (\<lambda>r. r \<noteq> None) availableServices)
      in (map Fetch requests,
          if validServices = []
          then Inl (Error ''Unable to ship this item to the destination country'')
          else Inr (take 4 validServices)))"

definition getInterparcelShippingServices ::
  "'n env \<Rightarrow> ShippingServicesInput \<Rightarrow> event list \<times> (error + 'n StripeShippingOption list)" where
  "getInterparcelShippingServices e input =
     (case interparcelSession e input of
        (evs, Inl err) \<Rightarrow> (evs, Inl err)
      | (evs, Inr (svcs, cookie, csrfToken)) \<Rightarrow>
          apfst ((@) evs)
            (interparcelQuotes e (interparcelParams input) (b2b input) svcs cookie csrfToken))"

subsection \<open>The procedure \<open>getShippingServices\<close>\<close>

text \<open>
  \<open>swallow label r\<close> is the pattern \<open>try { xs = await f(input) } catch (error) {
  console.error(label, message) }\<close> on a variable that starts as the empty list.
\<close>

fun swallow :: "string \<Rightarrow> event list \<times> (error + 'a list) \<Rightarrow> event list \<times> 'a list" where
  "swallow label (evs, Inl (Error m)) = (evs @ [ConsoleError label m], [])"
| "swallow label (evs, Inr xs) = (evs, xs)"

definition allUnder105 :: "ShippingServicesInput \<Rightarrow> bool" where
  "allUnder105 input =
     list_all (\<lambda>dimension. dimension < 105) [width input, length_dim input, height input]"

text \<open>
  \<open>ctxAdmin\<close> is \<open>ctx.session?.user?.isAdmin\<close>, \<open>None\<close> when there is no session, no
  user or no flag.
\<close>

definition getShippingServices ::
  "('n::{zero,one}) env \<Rightarrow> bool option \<Rightarrow> ShippingServicesInput \<Rightarrow>
   event list \<times> (error + 'n StripeShippingOption list)" where
  "getShippingServices e ctxAdmin input =
     (let isAdmin = (case ctxAdmin of None \<Rightarrow> False | Some a \<Rightarrow> a);
          withAdmin = (\<lambda>xs. if isAdmin then adminShippingOption # xs else xs)
      in if weight input \<ge> 20
         then (let withPickup =
                     (\<lambda>xs. if destinationCountry input = ''AU''
                           then xs @ [pickupShippingOption] else xs)
               in case getInterparcelShippingServices e input of
                    (evs, Inl err) \<Rightarrow>
                      if destinationCountry input \<noteq> ''AU'' then (evs, Inl err)
                      else (let (evs', shippingServices) =
                                  swallow
                                    ''Failed to fetch Interparcel services for heavy AU shipping:''
                                    (evs, Inl err)
                            in (evs', Inr (withAdmin (withPickup shippingServices))))
                  | (evs, Inr shippingServices) \<Rightarrow>
                      (evs, Inr (withAdmin (withPickup shippingServices))))
         else if destinationCountry input \<noteq> ''AU''
         then (case (if allUnder105 input
                     then getAusPostInternationalShippingServices e input
                     else getInterparcelShippingServices e input) of
                 (evs, Inl err) \<Rightarrow> (evs, Inl err)
               | (evs, Inr shippingServices) \<Rightarrow> (evs, Inr (withAdmin shippingServices)))
         else (let (evs, shippingServices, interparcelServices) =
                     (if allUnder105 input
                      then (let (evs1, xs) =
                                  swallow ''Failed to fetch AusPost domestic services:''
                                    (getDomesticShippingServices e input);
                                (evs2, ys) =
                                  swallow
                                    ''Failed to fetch Interparcel services for domestic AU shipping:''
                                    (getInterparcelShippingServices e input)
                            in (evs1 @ evs2, xs, ys))
                      else (let (evs1, xs) =
                                  swallow
                                    ''Failed to fetch Interparcel services for oversized AU shipping:''
                                    (getInterparcelShippingServices e input)
                            in (evs1, xs, [])));
                   allShippingServices =
                     withAdmin (pickupShippingOption # shippingServices @ interparcelServices)
               in (evs, Inr (take 4 allShippingServices))))"

subsection \<open>The per-service calls, in the words of the specification\<close>

text \<open>
  The specification calls a per-service quote call unavailable when it throws, when its
  HTTP status is not a success, or when the services array of its answer is empty. A
  call whose body cannot be parsed throws, and an answer with no services member has no
  service either. \<open>quoteOf\<close> is the option made of the first service of an answer;
  it is applied to the answers of available calls only, which have one.
  \<open>quoteOutcomes\<close> lists what the per-service calls settle with, in the order in
  which the provider listed the services.
\<close>

definition unavailable :: "error + 'n quote_response \<Rightarrow> bool" where
  "unavailable r =
     (case r of
        Inl err \<Rightarrow> True
      | Inr response \<Rightarrow>
          \<not> ok response \<or>
          (case json response of
             Inl err \<Rightarrow> True
           | Inr quote \<Rightarrow> (case quoted_services quote of None \<Rightarrow> True | Some qs \<Rightarrow> qs = [])))"

definition quoteOf :: "'n env \<Rightarrow> error + 'n quote_response \<Rightarrow> 'n StripeShippingOption" where
  "quoteOf e r =
     (let q = hd (the (quoted_services (projr (json (projr r)))))
      in fixedAmountOption (ceil_x100 e (sellPrice q)) (carrier q @ '' - '' @ quoted_name q))"

definition quoteOutcomes ::
  "'n env \<Rightarrow> interparcel_params \<Rightarrow> bool \<Rightarrow> InterparcelShippingService list \<Rightarrow> string \<Rightarrow> string \<Rightarrow>
   (error + 'n quote_response) list" where
  "quoteOutcomes e ps isB2b svcs ck tok =
     map (\<lambda>(i, s). fetchQuote e i (QuoteReq ps (service_id s) ck tok))
       (enumerate 0 (candidateServices isB2b svcs))"

text \<open>
  The options put in front of the list for the caller: the admin option when
  \<open>ctx.session?.user?.isAdmin\<close> is \<open>true\<close>, nothing otherwise.
\<close>

definition adminPrefix :: "bool option \<Rightarrow> ('n::one) StripeShippingOption list" where
  "adminPrefix a = (if a = Some True then [adminShippingOption] else [])"

subsection \<open>Example environments and requests\<close>

text \<open>
  \<open>unreachableEnv\<close>: no carrier can be reached, every \<open>fetch\<close> throws. Its numbers are
  reals, with \<open>Math.ceil(x * 100)\<close> computed exactly.
\<close>

definition unreachableEnv :: "real env" where
  "unreachableEnv =
     \<lparr>Number_of = (\<lambda>s. 0),
      ceil_x100 = (\<lambda>x. of_int \<lceil>x * 100\<rceil>),
      matchCsrfMeta = (\<lambda>html. None),
      newURL = (\<lambda>loc base. Inr loc),
      fetchServices = (\<lambda>r. Inl (Error ''fetch failed'')),
      fetchAvailability = (\<lambda>r. Inl (Error ''fetch failed'')),
      fetchQuotePage = (\<lambda>i r. Inl (Error ''fetch failed'')),
      fetchQuote = (\<lambda>i r. Inl (Error ''fetch failed''))\<rparr>"

definition okQuote :: "string \<Rightarrow> string \<Rightarrow> real \<Rightarrow> error + real quote_response" where
  "okQuote c n p =
     Inr \<lparr>ok = True,
          json = Inr \<lparr>quoted_services = Some [\<lparr>carrier = c, quoted_name = n, sellPrice = p\<rparr>]\<rparr>\<rparr>"

definition examplePage :: string where
  "examplePage = ''<meta name=\"csrf-token\" content=\"tok\">''"

definition exampleServices :: "InterparcelShippingService list" where
  "exampleServices =
     [\<lparr>service_id = ''s1'', service = ''TNT Road Express''\<rparr>,
      \<lparr>service_id = ''s2'', service = ''Hunter Express''\<rparr>,
      \<lparr>service_id = ''s3'', service = ''Allied B2B''\<rparr>,
      \<lparr>service_id = ''s4'', service = ''StarTrack''\<rparr>,
      \<lparr>service_id = ''s5'', service = ''Couriers Please''\<rparr>,
      \<lparr>service_id = ''s6'', service = ''Toll''\<rparr>,
      \<lparr>service_id = ''s7'', service = ''Aramex''\<rparr>,
      \<lparr>service_id = ''s8'', service = ''Northline''\<rparr>,
      \<lparr>service_id = ''s9'', service = ''Direct Freight''\<rparr>,
      \<lparr>service_id = ''s10'', service = ''Sendle''\<rparr>]"

fun exampleQuote :: "nat \<Rightarrow> request \<Rightarrow> error + real quote_response" where
  "exampleQuote i (QuoteReq ps sid ck tok) =
     (if sid = ''s1'' then okQuote ''TNT'' ''Road Express'' (455 / 10)
      else if sid = ''s4'' then Inl (Error ''fetch failed'')
      else if sid = ''s5'' then Inr \<lparr>ok = False, json = Inl (Error ''no body'')\<rparr>
      else if sid = ''s6'' then Inr \<lparr>ok = True, json = Inr \<lparr>quoted_services = Some []\<rparr>\<rparr>
      else if sid = ''s7'' then okQuote ''Aramex'' ''Parcel'' 30
      else if sid = ''s8'' then okQuote ''Northline'' ''Freight'' 120
      else if sid = ''s9'' then okQuote ''Direct Freight'' ''Express'' (8025 / 100)
      else okQuote ''Sendle'' ''Standard'' 25)"
| "exampleQuote i r = Inl (Error ''fetch failed'')"

fun examplePostal :: "request \<Rightarrow> error + AusPostShippingService list" where
  "examplePostal (DomesticReq l w h wt p1 p2) =
     Inr [\<lparr>code = ''AUS_PARCEL_REGULAR'', name = ''Parcel Post'', price = ''10.60''\<rparr>,
          \<lparr>code = ''AUS_PARCEL_EXPRESS'', name = ''Express Post'', price = ''14.35''\<rparr>]"
| "examplePostal (InternationalReq c wt) =
     Inr [\<lparr>code = ''INT_PARCEL_STD_OWN_PACKAGING'', name = ''Standard'', price = ''32.15''\<rparr>,
          \<lparr>code = ''INT_PARCEL_COR_OWN_PACKAGING'', name = ''Courier'', price = ''95.00''\<rparr>,
          \<lparr>code = ''INT_PARCEL_EXP_OWN_PACKAGING'', name = ''Express'', price = ''47.15''\<rparr>]"
| "examplePostal r = Inl (Error ''fetch failed'')"

text \<open>
  \<open>workingEnv\<close>: every carrier answers. The freight broker lists the ten services of
  \<open>exampleServices\<close>; the quote page redirects once and sets the session cookie on the
  way; of the per-service calls one throws, one has a status that is not a success, one
  has no service in its answer, and five give a quote.
\<close>

definition workingEnv :: "real env" where
  "workingEnv =
     \<lparr>Number_of =
        (\<lambda>s. if s = ''10.60'' then 106 / 10
             else if s = ''14.35'' then 1435 / 100
             else if s = ''32.15'' then 3215 / 100
             else if s = ''47.15'' then 4715 / 100
             else 0),
      ceil_x100 = (\<lambda>x. of_int \<lceil>x * 100\<rceil>),
      matchCsrfMeta = (\<lambda>html. if html = examplePage then Some ''tok'' else None),
      newURL = (\<lambda>loc base. Inr (''https://au.interparcel.com'' @ loc)),
      fetchServices = examplePostal,
      fetchAvailability = (\<lambda>r. Inr \<lparr>errorMessage = [], services = exampleServices\<rparr>),
      fetchQuotePage =
        (\<lambda>i r. if i = 0
               then Inr \<lparr>status = 302,
                         set_cookie = [''PHPSESSID=abc123; path=/; HttpOnly''],
                         location = Some ''/quote/select-service'',
                         text_body = Inr []\<rparr>
               else Inr \<lparr>status = 200, set_cookie = [], location = None,
                         text_body = Inr examplePage\<rparr>),
      fetchQuote = exampleQuote\<rparr>"

text \<open>\<open>noQuoteEnv\<close>: as \<open>workingEnv\<close>, but every per-service call is refused.\<close>

definition noQuoteEnv :: "real env" where
  "noQuoteEnv = workingEnv\<lparr>fetchQuote := (\<lambda>i r. Inr \<lparr>ok = False, json = Inl (Error ''no body'')\<rparr>)\<rparr>"

text \<open>\<open>emptyPriceEnv\<close>: the domestic answer has both codes, the express price is empty.\<close>

definition emptyPriceEnv :: "real env" where
  "emptyPriceEnv =
     unreachableEnv
       \<lparr>fetchServices :=
          (\<lambda>r. Inr [\<lparr>code = ''AUS_PARCEL_REGULAR'', name = ''Parcel Post'', price = ''10.60''\<rparr>,
                    \<lparr>code = ''AUS_PARCEL_EXPRESS'', name = ''Express Post'', price = []\<rparr>])\<rparr>"

text \<open>
  \<open>binary64Env\<close>: the numbers are those of the platform, in doubles. The two postal
  endpoints answer with prices of 1.10 and 16.10; the freight broker cannot be reached.
\<close>

fun pricedPostal :: "request \<Rightarrow> error + AusPostShippingService list" where
  "pricedPostal (DomesticReq l w h wt p1 p2) =
     Inr [\<lparr>code = ''AUS_PARCEL_REGULAR'', name = ''Parcel Post'', price = ''1.10''\<rparr>,
          \<lparr>code = ''AUS_PARCEL_EXPRESS'', name = ''Express Post'', price = ''16.10''\<rparr>]"
| "pricedPostal (InternationalReq c wt) =
     Inr [\<lparr>code = ''INT_PARCEL_STD_OWN_PACKAGING'', name = ''Standard'', price = ''1.10''\<rparr>,
          \<lparr>code = ''INT_PARCEL_EXP_OWN_PACKAGING'', name = ''Express'', price = ''16.10''\<rparr>]"
| "pricedPostal r = Inl (Error ''fetch failed'')"

definition binary64Env :: "jsnum env" where
  "binary64Env =
     \<lparr>Number_of = Number_js,
      ceil_x100 = ceil_x100_js,
      matchCsrfMeta = (\<lambda>html. None),
      newURL = (\<lambda>loc base. Inr loc),
      fetchServices = pricedPostal,
      fetchAvailability = (\<lambda>r. Inl (Error ''fetch failed'')),
      fetchQuotePage = (\<lambda>i r. Inl (Error ''fetch failed'')),
      fetchQuote = (\<lambda>i r. Inl (Error ''fetch failed''))\<rparr>"

text \<open>\<open>regularOnlyEnv\<close>: the domestic answer has the regular tier only.\<close>

definition regularOnlyEnv :: "real env" where
  "regularOnlyEnv =
     unreachableEnv
       \<lparr>fetchServices :=
          (\<lambda>r. Inr [\<lparr>code = ''AUS_PARCEL_REGULAR'', name = ''Parcel Post'', price = ''10.60''\<rparr>])\<rparr>"

definition exampleInput :: "real \<Rightarrow> string \<Rightarrow> ShippingServicesInput" where
  "exampleInput w c =
     \<lparr>weight = w, length_dim = 50, width = 40, height = 30, destinationCountry = c,
      destinationPostcode = Some ''3000'', destinationCity = Some ''Melbourne'',
      destinationState = Some ''VIC'', b2b = False\<rparr>"

text \<open>The same parcel with a length of 120.\<close>

definition longInput :: "real \<Rightarrow> string \<Rightarrow> ShippingServicesInput" where
  "longInput w c = (exampleInput w c)\<lparr>length_dim := 120\<rparr>"

section \<open>Properties\<close>

subsection \<open>Doubles, evaluated\<close>

lemmas binary64_eval =
  binary64_def exponent2_def exp_up.simps exp_down.simps pow2_def roundTiesToEven_def Let_def

lemmas Number_eval =
  Number_js_def trim_def is_space_def parseNumeric_def parseUnsignedDecimal_def isDigit_def
  digitsValue_def digitValue_def parseExponent_def scale10_def toDouble_def ceil_x100_js_def

text \<open>The whole numbers of the examples are doubles.\<close>

lemma padding_of_examples:
  "binary64 80 = 80" "binary64 70 = 70" "binary64 40 = 40"
  by (simp_all add: binary64_eval)

text \<open>
  A sum of doubles is rounded: for the length 4.02 the padded length is not the exact
  sum, it is the double printed as 34.019999999999996.
\<close>

lemma padding_rounds:
  "binary64 (402 / 100) = 1131529406376837 / 2 ^ 48"
  "binary64 (1131529406376837 / 2 ^ 48 + 30) = 2393944676924129 / 2 ^ 46"
  "(1131529406376837 / 2 ^ 48 + 30 :: real) \<noteq> 2393944676924129 / 2 ^ 46"
  by (simp_all add: binary64_eval)

text \<open>
  \<open>Number("1.10")\<close> is the double next above 1.1, and its product with 100 is the
  double next above 110.
\<close>

lemma double_1_10:
  "Number_js ''1.10'' = Num (2476979795053773 / 2251799813685248)"
  "toDouble (2476979795053773 / 2251799813685248 * 100) = Num (7740561859543041 / 70368744177664)"
  by (simp_all add: Number_eval binary64_eval)

lemma cents_1_10:
  "ceil_x100_js (Number_js ''1.10'') = Num 111"
  by (simp add: Number_eval binary64_eval)

lemma cents_16_10:
  "ceil_x100_js (Number_js ''16.10'') = Num 1611"
  by (simp add: Number_eval binary64_eval)

lemma cents_10_60:
  "ceil_x100_js (Number_js ''10.60'') = Num 1060"
  by (simp add: Number_eval binary64_eval)

subsection \<open>What the clients return\<close>

lemma interparcelQuotes_Inr:
  assumes "snd (interparcelQuotes e ps isB2b svcs ck tok) = Inr ys"
  shows "ys \<noteq> [] \<and> length ys \<le> 4 \<and>
         (\<forall>y \<in> set ys. \<exists>p c n. y = fixedAmountOption (ceil_x100 e p) (c @ '' - '' @ n))"
proof -
  let ?reqs = "map (\<lambda>s. QuoteReq ps (service_id s) ck tok) (candidateServices isB2b svcs)"
  let ?avail = "map (\<lambda>(i, req). settleQuote e i req) (enumerate 0 ?reqs)"
  let ?valid = "map the (filter (\<lambda>r. r \<noteq> None) ?avail)"
  from assms have ne: "?valid \<noteq> []" and ys: "ys = take 4 ?valid"
    by (auto simp: interparcelQuotes_def Let_def split: if_splits)
  have shape: "\<exists>p c n. y = fixedAmountOption (ceil_x100 e p) (c @ '' - '' @ n)" if "settleQuote e i r = Some y" for i r y
    using that by (auto simp: settleQuote_def split: sum.splits if_splits option.splits list.splits)
  have v: "\<exists>p c n. y = fixedAmountOption (ceil_x100 e p) (c @ '' - '' @ n)" if "y \<in> set ?valid" for y
  proof -
    from that obtain r where r: "r \<in> set ?avail" "r \<noteq> None" "y = the r" by auto
    then obtain i req where "r = settleQuote e i req" by auto
    with r have "settleQuote e i req = Some y" by auto
    then show ?thesis by (rule shape)
  qed
  have "ys \<noteq> []" using ne ys by simp
  moreover have "length ys \<le> 4" using ys by simp
  moreover have "\<forall>y \<in> set ys. \<exists>p c n. y = fixedAmountOption (ceil_x100 e p) (c @ '' - '' @ n)"
  proof
    fix y assume "y \<in> set ys"
    then have "y \<in> set ?valid" unfolding ys by (rule in_set_takeD)
    then show "\<exists>p c n. y = fixedAmountOption (ceil_x100 e p) (c @ '' - '' @ n)" by (rule v)
  qed
  ultimately show ?thesis by blast
qed

lemma getInterparcel_Inr:
  assumes "snd (getInterparcelShippingServices e input) = Inr ys"
  shows "ys \<noteq> [] \<and> length ys \<le> 4 \<and>
         (\<forall>y \<in> set ys. \<exists>p c n. y = fixedAmountOption (ceil_x100 e p) (c @ '' - '' @ n))"
proof -
  obtain evs r where s: "interparcelSession e input = (evs, r)" by (cases "interparcelSession e input")
  show ?thesis
  proof (cases r)
    case (Inl err)
    with s assms show ?thesis by (simp add: getInterparcelShippingServices_def)
  next
    case (Inr tr)
    obtain svcs ck tok where tr: "tr = (svcs, ck, tok)" by (cases tr)
    from s Inr tr assms
    have "snd (interparcelQuotes e (interparcelParams input) (b2b input) svcs ck tok) = Inr ys"
      by (simp add: getInterparcelShippingServices_def)
    then show ?thesis by (rule interparcelQuotes_Inr)
  qed
qed

lemma fixedAmountOption_name:
  "display_name (shipping_rate_data (fixedAmountOption x n)) = n"
  by (simp add: fixedAmountOption_def)

lemma getInternational_Inr:
  assumes "snd (getAusPostInternationalShippingServices e input) = Inr ys"
  shows "\<forall>y \<in> set ys. \<exists>p n. y = fixedAmountOption (ceil_x100 e (Number_of e p)) n \<and>
                          n \<in> set supportedShippingMethods"
proof
  fix y assume y: "y \<in> set ys"
  from assms obtain ss :: "AusPostShippingService list" where
    ys: "ys = filter (\<lambda>s. display_name (shipping_rate_data s) \<in> set supportedShippingMethods)
               (map (\<lambda>s. fixedAmountOption (ceil_x100 e (Number_of e (price s))) (name s)) ss)"
    by (auto simp: getAusPostInternationalShippingServices_def Let_def split: sum.splits)
  from y obtain s :: AusPostShippingService
    where "y = fixedAmountOption (ceil_x100 e (Number_of e (price s))) (name s)"
    and "display_name (shipping_rate_data y) \<in> set supportedShippingMethods"
    unfolding ys by auto
  then show "\<exists>p n. y = fixedAmountOption (ceil_x100 e (Number_of e p)) n \<and>
                n \<in> set supportedShippingMethods"
    by (auto simp: fixedAmountOption_name)
qed

lemma getDomestic_Inr:
  assumes "snd (getDomesticShippingServices e input) = Inr ys"
  shows "\<exists>p q. ys = [fixedAmountOption (ceil_x100 e (Number_of e p)) ''AusPost Regular'',
                        fixedAmountOption (ceil_x100 e (Number_of e q)) ''AusPost Express'']"
  using assms
  by (auto simp: getDomesticShippingServices_def Let_def split: sum.splits option.splits if_splits)

text \<open>
  So every amount a carrier client returns is \<open>Math.ceil(Number(p) * 100)\<close> of a price
  \<open>p\<close> of the provider, as the platform computes it; the embedding says nothing on
  the value of that expression.
\<close>

lemma adminPrefix_length: "length (adminPrefix a) \<le> 1"
  by (simp add: adminPrefix_def)

lemma getInternational_length:
  assumes "snd (getAusPostInternationalShippingServices e input) = Inr ys"
    and "fetchServices e (InternationalReq (destinationCountry input) (weight input)) = Inr ss"
  shows "length ys = length (filter (\<lambda>s. name s \<in> set supportedShippingMethods) ss)"
proof -
  from assms have "ys = filter (\<lambda>s. display_name (shipping_rate_data s) \<in> set supportedShippingMethods)
                     (map (\<lambda>s. fixedAmountOption (ceil_x100 e (Number_of e (price s))) (name s)) ss)"
    by (simp add: getAusPostInternationalShippingServices_def)
  then show ?thesis
    by (simp add: filter_map o_def fixedAmountOption_def)
qed

subsection \<open>The freight-broker client against the specification\<close>

lemma settleQuote_unavailable:
  "settleQuote e i req =
     (if unavailable (fetchQuote e i req) then None else Some (quoteOf e (fetchQuote e i req)))"
  by (auto simp: settleQuote_def unavailable_def quoteOf_def split: sum.splits option.splits list.splits)

lemma settled_survivors:
  "map the (filter (\<lambda>r. r \<noteq> None) (map (\<lambda>(i, req). settleQuote e i req) xs)) =
   map (quoteOf e) (filter (\<lambda>r. \<not> unavailable r) (map (\<lambda>(i, req). fetchQuote e i req) xs))"
  by (induction xs) (auto simp: settleQuote_unavailable split: if_splits)

lemma enumerate_map_request:
  "map (\<lambda>(i, req). f i req) (enumerate n (map g xs)) = map (\<lambda>(i, s). f i (g s)) (enumerate n xs)"
  by (induction xs arbitrary: n) simp_all

lemma interparcelQuotes_result:
  "snd (interparcelQuotes e ps isB2b svcs ck tok) =
     (let usable = filter (\<lambda>r. \<not> unavailable r) (quoteOutcomes e ps isB2b svcs ck tok)
      in if usable = [] then Inl (Error ''Unable to ship this item to the destination country'')
         else Inr (take 4 (map (quoteOf e) usable)))"
proof -
  let ?reqs = "map (\<lambda>s. QuoteReq ps (service_id s) ck tok) (candidateServices isB2b svcs)"
  have o: "map (\<lambda>(i, req). fetchQuote e i req) (enumerate 0 ?reqs) =
           quoteOutcomes e ps isB2b svcs ck tok"
    unfolding quoteOutcomes_def by (rule enumerate_map_request)
  have v: "map the (filter (\<lambda>r. r \<noteq> None) (map (\<lambda>(i, req). settleQuote e i req) (enumerate 0 ?reqs))) =
        map (quoteOf e) (filter (\<lambda>r. \<not> unavailable r) (quoteOutcomes e ps isB2b svcs ck tok))"
    unfolding settled_survivors o ..
  show ?thesis
    unfolding interparcelQuotes_def Let_def snd_conv v by simp
qed

subsection \<open>The branches of \<open>getShippingServices\<close>\<close>

lemma invoked_append: "invoked (xs @ ys) = invoked xs @ invoked ys"
  by (induction xs rule: invoked.induct) simp_all

lemma invoked_map_Fetch: "invoked (map Fetch rs) = map carrier_of rs"
  by (induction rs) simp_all

lemma swallow_snd:
  "snd (swallow label p) = (case snd p of Inl err \<Rightarrow> [] | Inr xs \<Rightarrow> xs)"
  by (cases "(label, p)" rule: swallow.cases) simp_all

lemma swallow_invoked: "invoked (fst (swallow label p)) = invoked (fst p)"
  by (cases "(label, p)" rule: swallow.cases) (simp_all add: invoked_append)

lemma heavy_result:
  assumes "weight input \<ge> 20"
  shows "snd (getShippingServices e a input) =
           (case snd (getInterparcelShippingServices e input) of
              Inl err \<Rightarrow>
                if destinationCountry input \<noteq> ''AU'' then Inl err
                else Inr (adminPrefix a @ [pickupShippingOption])
            | Inr xs \<Rightarrow>
                Inr (adminPrefix a @ xs @
                     (if destinationCountry input = ''AU'' then [pickupShippingOption] else [])))"
proof -
  obtain evs r where g: "getInterparcelShippingServices e input = (evs, r)"
    by (cases "getInterparcelShippingServices e input")
  show ?thesis
  proof (cases r)
    case (Inl err)
    obtain m where "err = Error m" by (cases err)
    with Inl g assms show ?thesis
      by (cases a) (simp_all add: getShippingServices_def adminPrefix_def)
  next
    case (Inr xs)
    with g assms show ?thesis
      by (cases a) (simp_all add: getShippingServices_def adminPrefix_def)
  qed
qed

lemma heavy_invoked:
  assumes "weight input \<ge> 20"
  shows "invoked (fst (getShippingServices e a input)) =
         invoked (fst (getInterparcelShippingServices e input))"
proof -
  obtain evs r where g: "getInterparcelShippingServices e input = (evs, r)"
    by (cases "getInterparcelShippingServices e input")
  show ?thesis
  proof (cases r)
    case (Inl err)
    obtain m where "err = Error m" by (cases err)
    with Inl g assms show ?thesis
      by (simp add: getShippingServices_def invoked_append)
  next
    case (Inr xs)
    with g assms show ?thesis
      by (simp add: getShippingServices_def)
  qed
qed

lemma foreign_light:
  assumes "\<not> weight input \<ge> 20" and "destinationCountry input \<noteq> ''AU''"
  shows "getShippingServices e a input =
           (case (if allUnder105 input then getAusPostInternationalShippingServices e input
                  else getInterparcelShippingServices e input) of
              (evs, Inl err) \<Rightarrow> (evs, Inl err)
            | (evs, Inr xs) \<Rightarrow> (evs, Inr (adminPrefix a @ xs)))"
  using assms
  by (cases a) (auto simp: getShippingServices_def adminPrefix_def split: prod.splits sum.splits)

lemma domestic_light_result:
  assumes "\<not> weight input \<ge> 20" and "destinationCountry input = ''AU''"
  shows "snd (getShippingServices e a input) =
           Inr (take 4 (adminPrefix a @ pickupShippingOption #
                  (if allUnder105 input
                   then snd (swallow ''Failed to fetch AusPost domestic services:''
                               (getDomesticShippingServices e input)) @
                        snd (swallow ''Failed to fetch Interparcel services for domestic AU shipping:''
                               (getInterparcelShippingServices e input))
                   else snd (swallow ''Failed to fetch Interparcel services for oversized AU shipping:''
                               (getInterparcelShippingServices e input)))))"
  using assms
  by (cases a) (auto simp: getShippingServices_def adminPrefix_def Let_def split: prod.splits)

lemma domestic_light_invoked:
  assumes "\<not> weight input \<ge> 20" and "destinationCountry input = ''AU''"
  shows "invoked (fst (getShippingServices e a input)) =
           (if allUnder105 input
            then invoked (fst (getDomesticShippingServices e input)) @
                 invoked (fst (getInterparcelShippingServices e input))
            else invoked (fst (getInterparcelShippingServices e input)))"
  using assms
  by (simp add: getShippingServices_def Let_def case_prod_beta invoked_append swallow_invoked)

lemma foreign_light_result:
  assumes "\<not> weight input \<ge> 20" and "destinationCountry input \<noteq> ''AU''"
  shows "snd (getShippingServices e a input) =
           (case snd (if allUnder105 input then getAusPostInternationalShippingServices e input
                      else getInterparcelShippingServices e input) of
              Inl err \<Rightarrow> Inl err
            | Inr xs \<Rightarrow> Inr (adminPrefix a @ xs))"
  by (simp add: foreign_light [OF assms] split: prod.splits sum.splits)

lemma take4_adminPrefix:
  "\<exists>ys. take 4 (adminPrefix (Some True) @ xs) = adminShippingOption # ys"
  by (simp add: adminPrefix_def numeral_eq_Suc)

subsection \<open>No carrier option is named like the pickup option\<close>

lemma pickup_name:
  "display_name (shipping_rate_data pickupShippingOption) = ''Pickup from Parted Euro''"
  by (simp add: pickupShippingOption_def)

lemma freight_name_not_pickup:
  "display_name (shipping_rate_data (fixedAmountOption x (c @ '' - '' @ n))) \<noteq>
     ''Pickup from Parted Euro''"
proof
  assume "display_name (shipping_rate_data (fixedAmountOption x (c @ '' - '' @ n))) =
     ''Pickup from Parted Euro''"
  then have "c @ '' - '' @ n = ''Pickup from Parted Euro''" by (simp add: fixedAmountOption_def)
  then have "set (c @ '' - '' @ n) = set ''Pickup from Parted Euro''" by (rule arg_cong)
  moreover have "CHR ''-'' \<in> set (c @ '' - '' @ n)" by simp
  ultimately have "CHR ''-'' \<in> set ''Pickup from Parted Euro''" by blast
  then show False by simp
qed

lemma adminPrefix_not_pickup:
  "\<forall>x \<in> set (adminPrefix a). display_name (shipping_rate_data x) \<noteq> ''Pickup from Parted Euro''"
  by (simp add: adminPrefix_def adminShippingOption_def)

lemma getInterparcel_not_pickup:
  assumes "snd (getInterparcelShippingServices e input) = Inr ys"
  shows "\<forall>y \<in> set ys. display_name (shipping_rate_data y) \<noteq> ''Pickup from Parted Euro''"
  using getInterparcel_Inr [OF assms] freight_name_not_pickup by metis

lemma getInternational_not_pickup:
  assumes "snd (getAusPostInternationalShippingServices e input) = Inr ys"
  shows "\<forall>y \<in> set ys. display_name (shipping_rate_data y) \<noteq> ''Pickup from Parted Euro''"
  using getInternational_Inr [OF assms]
  by (auto simp: supportedShippingMethods_def fixedAmountOption_def)

subsection \<open>The example environments, evaluated\<close>

lemma workingEnv_loop:
  "quotePageLoop workingEnv 0 u [] =
     ([Fetch (QuotePageReq u []),
       Fetch (QuotePageReq (Url ''https://au.interparcel.com/quote/select-service'')
                [(''PHPSESSID'', ''abc123'')])],
      Inr ([(''PHPSESSID'', ''abc123'')], examplePage))"
  by (simp add: workingEnv_def quotePageLoop.simps redirectTarget_def truthy_def storeCookie_def Let_def
        trim_def is_space_def)

lemma workingEnv_fields:
  "fetchAvailability workingEnv r = Inr \<lparr>errorMessage = [], services = exampleServices\<rparr>"
  "matchCsrfMeta workingEnv examplePage = Some ''tok''"
  "fetchQuote workingEnv = exampleQuote"
  "fetchServices workingEnv = examplePostal"
  "ceil_x100 workingEnv x = of_int \<lceil>x * 100\<rceil>"
  by (simp_all add: workingEnv_def)

lemma workingEnv_session:
  "snd (interparcelSession workingEnv input) = Inr (exampleServices, ''PHPSESSID=abc123'', ''tok'')"
  by (simp add: interparcelSession_def workingEnv_loop workingEnv_fields phpSessId_def truthy_def
        cookieHeader_def entries_def arrayIndex_def digitsValue_def digitValue_def)

lemma example_candidates:
  "candidateServices False exampleServices =
     [\<lparr>service_id = ''s1'', service = ''TNT Road Express''\<rparr>,
      \<lparr>service_id = ''s4'', service = ''StarTrack''\<rparr>,
      \<lparr>service_id = ''s5'', service = ''Couriers Please''\<rparr>,
      \<lparr>service_id = ''s6'', service = ''Toll''\<rparr>,
      \<lparr>service_id = ''s7'', service = ''Aramex''\<rparr>,
      \<lparr>service_id = ''s8'', service = ''Northline''\<rparr>,
      \<lparr>service_id = ''s9'', service = ''Direct Freight''\<rparr>,
      \<lparr>service_id = ''s10'', service = ''Sendle''\<rparr>]"
  by (simp add: candidateServices_def exampleServices_def toLowerCase_def toLowerCase_char_def
        upperCaseLetters_def lowerCaseLetters_def)

lemma workingEnv_quotes:
  "snd (interparcelQuotes workingEnv ps False exampleServices ck tok) =
     Inr [fixedAmountOption 4550 ''TNT - Road Express'',
          fixedAmountOption 3000 ''Aramex - Parcel'',
          fixedAmountOption 12000 ''Northline - Freight'',
          fixedAmountOption 8025 ''Direct Freight - Express'']"
  by (simp add: interparcelQuotes_def example_candidates enumerate_eq_zip upt_rec [of 0]
        settleQuote_def workingEnv_fields okQuote_def)

lemma workingEnv_interparcel:
  "b2b input = False \<Longrightarrow> snd (getInterparcelShippingServices workingEnv input) =
     Inr [fixedAmountOption 4550 ''TNT - Road Express'',
          fixedAmountOption 3000 ''Aramex - Parcel'',
          fixedAmountOption 12000 ''Northline - Freight'',
          fixedAmountOption 8025 ''Direct Freight - Express'']"
  using workingEnv_session [of input] workingEnv_quotes [of "interparcelParams input"]
  by (auto simp: getInterparcelShippingServices_def split: prod.splits sum.splits)


lemma unreachable_interparcel:
  "getInterparcelShippingServices unreachableEnv input =
     ([Fetch (AvailabilityReq (interparcelParams input) (shipmentType input))],
      Inl (Error ''fetch failed''))"
  by (simp add: getInterparcelShippingServices_def interparcelSession_def unreachableEnv_def)

lemma exampleInput_fields:
  "weight (exampleInput w c) = w" "destinationCountry (exampleInput w c) = c"
  "b2b (exampleInput w c) = False" "allUnder105 (exampleInput w c)"
  "length_dim (exampleInput w c) = 50" "width (exampleInput w c) = 40"
  "height (exampleInput w c) = 30"
  by (simp_all add: exampleInput_def allUnder105_def)

lemma longInput_fields:
  "weight (longInput w c) = w" "destinationCountry (longInput w c) = c"
  "b2b (longInput w c) = False" "\<not> allUnder105 (longInput w c)"
  by (simp_all add: longInput_def exampleInput_def allUnder105_def)

lemma workingEnv_domestic:
  "snd (getDomesticShippingServices workingEnv input) =
     Inr [fixedAmountOption 1060 ''AusPost Regular'', fixedAmountOption 1435 ''AusPost Express'']"
  by (simp add: getDomesticShippingServices_def workingEnv_fields find_price_def)
     (simp add: workingEnv_def)

lemma workingEnv_international:
  "snd (getAusPostInternationalShippingServices workingEnv input) =
     Inr [fixedAmountOption 3215 ''Standard'', fixedAmountOption 4715 ''Express'']"
  by (simp add: getAusPostInternationalShippingServices_def workingEnv_fields
        supportedShippingMethods_def fixedAmountOption_def)
     (simp add: workingEnv_def)

lemma workingEnv_heavy_AU:
  "snd (getShippingServices workingEnv None (exampleInput 25 ''AU'')) =
     Inr [fixedAmountOption 4550 ''TNT - Road Express'',
          fixedAmountOption 3000 ''Aramex - Parcel'',
          fixedAmountOption 12000 ''Northline - Freight'',
          fixedAmountOption 8025 ''Direct Freight - Express'',
          pickupShippingOption]"
  by (simp add: heavy_result workingEnv_interparcel exampleInput_fields adminPrefix_def)

lemma workingEnv_heavy_US:
  "snd (getShippingServices workingEnv (Some True) (exampleInput 25 ''US'')) =
     Inr [adminShippingOption,
          fixedAmountOption 4550 ''TNT - Road Express'',
          fixedAmountOption 3000 ''Aramex - Parcel'',
          fixedAmountOption 12000 ''Northline - Freight'',
          fixedAmountOption 8025 ''Direct Freight - Express'']"
  by (simp add: heavy_result workingEnv_interparcel exampleInput_fields adminPrefix_def)

lemma workingEnv_long_US:
  "snd (getShippingServices workingEnv (Some True) (longInput 5 ''US'')) =
     Inr [adminShippingOption,
          fixedAmountOption 4550 ''TNT - Road Express'',
          fixedAmountOption 3000 ''Aramex - Parcel'',
          fixedAmountOption 12000 ''Northline - Freight'',
          fixedAmountOption 8025 ''Direct Freight - Express'']"
  by (simp add: foreign_light_result workingEnv_interparcel longInput_fields adminPrefix_def)

lemma workingEnv_light_US:
  "snd (getShippingServices workingEnv (Some True) (exampleInput 5 ''US'')) =
     Inr [adminShippingOption,
          fixedAmountOption 3215 ''Standard'', fixedAmountOption 4715 ''Express'']"
  by (simp add: foreign_light_result workingEnv_international exampleInput_fields adminPrefix_def)

lemma workingEnv_light_AU:
  "snd (getShippingServices workingEnv None (exampleInput 5 ''AU'')) =
     Inr [pickupShippingOption,
          fixedAmountOption 1060 ''AusPost Regular'',
          fixedAmountOption 1435 ''AusPost Express'',
          fixedAmountOption 4550 ''TNT - Road Express'']"
  by (simp add: domestic_light_result workingEnv_interparcel workingEnv_domestic
        exampleInput_fields adminPrefix_def swallow_snd)

lemma noQuoteEnv_session:
  "snd (interparcelSession noQuoteEnv input) = Inr (exampleServices, ''PHPSESSID=abc123'', ''tok'')"
proof -
  have l: "quotePageLoop noQuoteEnv 0 u [] =
     ([Fetch (QuotePageReq u []),
       Fetch (QuotePageReq (Url ''https://au.interparcel.com/quote/select-service'')
                [(''PHPSESSID'', ''abc123'')])],
      Inr ([(''PHPSESSID'', ''abc123'')], examplePage))" for u
    by (simp add: noQuoteEnv_def workingEnv_def quotePageLoop.simps redirectTarget_def truthy_def
          storeCookie_def Let_def trim_def is_space_def)
  have f: "fetchAvailability noQuoteEnv r = Inr \<lparr>errorMessage = [], services = exampleServices\<rparr>"
    "matchCsrfMeta noQuoteEnv examplePage = Some ''tok''" for r
    by (simp_all add: noQuoteEnv_def workingEnv_def)
  show ?thesis
    by (simp add: interparcelSession_def l f phpSessId_def truthy_def cookieHeader_def
          entries_def arrayIndex_def digitsValue_def digitValue_def)
qed

lemma workingEnv_outcomes:
  "map (quoteOf workingEnv)
     (filter (\<lambda>r. \<not> unavailable r)
        (quoteOutcomes workingEnv ps False exampleServices ck tok)) =
   [fixedAmountOption 4550 ''TNT - Road Express'',
    fixedAmountOption 3000 ''Aramex - Parcel'',
    fixedAmountOption 12000 ''Northline - Freight'',
    fixedAmountOption 8025 ''Direct Freight - Express'',
    fixedAmountOption 2500 ''Sendle - Standard'']"
  by (simp add: quoteOutcomes_def example_candidates enumerate_eq_zip upt_rec [of 0]
        workingEnv_fields okQuote_def unavailable_def quoteOf_def)

lemma noQuoteEnv_outcomes:
  "filter (\<lambda>r. \<not> unavailable r) (quoteOutcomes noQuoteEnv ps isB2b svcs ck tok) = []"
  by (simp add: quoteOutcomes_def noQuoteEnv_def unavailable_def case_prod_beta)

subsection \<open>The carriers a client reaches\<close>

lemma quotePageLoop_invoked:
  "set (invoked (fst (quotePageLoop e i u jar))) \<subseteq> {FreightBroker}"
proof (induction e i u jar rule: quotePageLoop.induct)
  case (1 e i nextUrl cookieJar)
  show ?case
  proof (cases "i < 5")
    case False
    then show ?thesis by (simp add: quotePageLoop.simps [of e i])
  next
    case True
    show ?thesis
    proof (cases "fetchQuotePage e i (QuotePageReq nextUrl cookieJar)")
      case (Inl err)
      with True show ?thesis by (simp add: quotePageLoop.simps [of e i])
    next
      case (Inr res)
      show ?thesis
      proof (cases "redirectTarget res")
        case None
        with True Inr show ?thesis
          by (simp add: quotePageLoop.simps [of e i] Let_def split: sum.splits)
      next
        case (Some loc)
        show ?thesis
        proof (cases "newURL e loc nextUrl")
          case (Inl err)
          with True Inr Some show ?thesis by (simp add: quotePageLoop.simps [of e i])
        next
          case (Inr u)
          from "1.IH" [OF True refl \<open>fetchQuotePage e i (QuotePageReq nextUrl cookieJar) = Inr res\<close> refl Some Inr]
          have "set (invoked (fst (quotePageLoop e (i + 1) (Url u)
                   (foldl storeCookie cookieJar (set_cookie res))))) \<subseteq> {FreightBroker}" .
          with True \<open>fetchQuotePage e i (QuotePageReq nextUrl cookieJar) = Inr res\<close> Some Inr
          show ?thesis by (simp add: quotePageLoop.simps [of e i])
        qed
      qed
    qed
  qed
qed

lemma interparcelSession_invoked:
  "\<exists>cs. invoked (fst (interparcelSession e input)) = FreightBroker # cs \<and> set cs \<subseteq> {FreightBroker}"
proof -
  obtain evs r where l: "quotePageLoop e 0 (SelectService (quotePageParams input)) [] = (evs, r)"
    by (cases "quotePageLoop e 0 (SelectService (quotePageParams input)) []")
  with quotePageLoop_invoked [of e 0 "SelectService (quotePageParams input)" "[]"]
  have "set (invoked evs) \<subseteq> {FreightBroker}" by simp
  with l show ?thesis
    by (auto simp: interparcelSession_def Let_def split: sum.splits option.splits prod.splits)
qed

lemma interparcelQuotes_invoked:
  "set (invoked (fst (interparcelQuotes e ps isB2b svcs ck tok))) \<subseteq> {FreightBroker}"
proof -
  have "fst (interparcelQuotes e ps isB2b svcs ck tok) =
          map Fetch (map (\<lambda>s. QuoteReq ps (service_id s) ck tok) (candidateServices isB2b svcs))"
    by (simp add: interparcelQuotes_def Let_def)
  then show ?thesis
    by (simp only: invoked_map_Fetch) auto
qed

lemma getInterparcel_invoked:
  "\<exists>cs. invoked (fst (getInterparcelShippingServices e input)) = FreightBroker # cs \<and>
        set cs \<subseteq> {FreightBroker}"
proof -
  obtain evs r where s: "interparcelSession e input = (evs, r)" by (cases "interparcelSession e input")
  from interparcelSession_invoked [of e input] s
  obtain cs where cs: "invoked evs = FreightBroker # cs" "set cs \<subseteq> {FreightBroker}" by auto
  show ?thesis
  proof (cases r)
    case (Inl err)
    with s cs show ?thesis by (simp add: getInterparcelShippingServices_def)
  next
    case (Inr tr)
    obtain svcs ck tok where tr: "tr = (svcs, ck, tok)" by (cases tr)
    let ?q = "interparcelQuotes e (interparcelParams input) (b2b input) svcs ck tok"
    have "invoked (fst (getInterparcelShippingServices e input)) = FreightBroker # cs @ invoked (fst ?q)"
      using s Inr tr cs by (simp add: getInterparcelShippingServices_def invoked_append)
    moreover have "set (cs @ invoked (fst ?q)) \<subseteq> {FreightBroker}"
      using cs(2) interparcelQuotes_invoked [of e "interparcelParams input" "b2b input" svcs ck tok]
      by simp
    ultimately show ?thesis by blast
  qed
qed

lemma getInternational_events:
  "fst (getAusPostInternationalShippingServices e input) =
     [Fetch (InternationalReq (destinationCountry input) (weight input))]"
  by (simp add: getAusPostInternationalShippingServices_def Let_def split: sum.splits)

lemma getDomestic_events:
  "fst (getDomesticShippingServices e input) =
     [Fetch (DomesticReq (length_dim input) (width input) (height input) (weight input)
               ''3180'' (destinationPostcode input))]"
  by (simp add: getDomesticShippingServices_def Let_def partedEuroAddress_def
        split: sum.splits option.splits)

text \<open>The carriers reached on each branch of the procedure.\<close>

lemma carriers_invoked:
  "set (invoked (fst (getShippingServices e a input))) =
     (if weight input \<ge> 20 then {FreightBroker}
      else if destinationCountry input \<noteq> ''AU''
      then (if allUnder105 input then {InternationalPostal} else {FreightBroker})
      else (if allUnder105 input then {DomesticPostal, FreightBroker} else {FreightBroker}))"
proof -
  from getInterparcel_invoked [of e input]
  have f: "set (invoked (fst (getInterparcelShippingServices e input))) = {FreightBroker}"
    by auto
  show ?thesis
  proof (cases "weight input \<ge> 20")
    case True
    then show ?thesis by (simp add: heavy_invoked f)
  next
    case False
    show ?thesis
    proof (cases "destinationCountry input = ''AU''")
      case True
      with False f show ?thesis
        by (auto simp: domestic_light_invoked getDomestic_events)
    next
      case abroad: False
      have "fst (getShippingServices e a input) =
              fst (if allUnder105 input then getAusPostInternationalShippingServices e input
                   else getInterparcelShippingServices e input)"
        by (simp add: foreign_light [OF False abroad] split: prod.splits sum.splits)
      with False abroad f show ?thesis
        by (simp add: getInternational_events)
    qed
  qed
qed

subsection \<open>The requests of the freight-broker client\<close>

lemma quotePageLoop_requests:
  "\<forall>ev \<in> set (fst (quotePageLoop e i u jar)).
     \<exists>u' jar'. ev = Fetch (QuotePageReq u' jar') \<and> (u' = u \<or> (\<exists>l. u' = Url l))"
proof (induction e i u jar rule: quotePageLoop.induct)
  case (1 e i nextUrl cookieJar)
  show ?case
  proof (cases "i < 5")
    case False
    then show ?thesis by (simp add: quotePageLoop.simps [of e i])
  next
    case True
    show ?thesis
    proof (cases "fetchQuotePage e i (QuotePageReq nextUrl cookieJar)")
      case (Inl err)
      with True show ?thesis by (simp add: quotePageLoop.simps [of e i])
    next
      case (Inr res)
      note res = this
      show ?thesis
      proof (cases "redirectTarget res")
        case None
        with True res show ?thesis
          by (simp add: quotePageLoop.simps [of e i] Let_def split: sum.splits)
      next
        case (Some loc)
        show ?thesis
        proof (cases "newURL e loc nextUrl")
          case (Inl err)
          with True res Some show ?thesis by (simp add: quotePageLoop.simps [of e i])
        next
          case (Inr l)
          from "1.IH" [OF True refl res refl Some Inr]
          have "\<forall>ev \<in> set (fst (quotePageLoop e (i + 1) (Url l)
                    (foldl storeCookie cookieJar (set_cookie res)))).
                  \<exists>u' jar'. ev = Fetch (QuotePageReq u' jar') \<and> (\<exists>l. u' = Url l)"
            by blast
          with True res Some Inr show ?thesis
            by (simp add: quotePageLoop.simps [of e i]) blast
        qed
      qed
    qed
  qed
qed

lemma quotePageLoop_first:
  "\<exists>rest. fst (quotePageLoop e 0 u jar) = Fetch (QuotePageReq u jar) # rest"
  by (simp add: quotePageLoop.simps [of e 0] Let_def split: sum.splits option.splits)

lemma interparcelSession_requests:
  "\<exists>rest. fst (interparcelSession e input) =
            Fetch (AvailabilityReq (interparcelParams input) (shipmentType input)) # rest \<and>
          (\<forall>ev \<in> set rest. \<exists>u jar. ev = Fetch (QuotePageReq u jar) \<and>
             (u = SelectService (quotePageParams input) \<or> (\<exists>l. u = Url l)))"
proof -
  obtain evs r where l: "quotePageLoop e 0 (SelectService (quotePageParams input)) [] = (evs, r)"
    by (cases "quotePageLoop e 0 (SelectService (quotePageParams input)) []")
  with quotePageLoop_requests [of e 0 "SelectService (quotePageParams input)" "[]"]
  have "\<forall>ev \<in> set evs. \<exists>u jar. ev = Fetch (QuotePageReq u jar) \<and>
             (u = SelectService (quotePageParams input) \<or> (\<exists>l. u = Url l))" by simp
  with l show ?thesis
    by (auto simp: interparcelSession_def Let_def split: sum.splits option.splits prod.splits)
qed

lemma interparcelSession_page:
  assumes "fetchAvailability e (AvailabilityReq (interparcelParams input) (shipmentType input)) =
             Inr avail"
    and "errorMessage avail = []"
  shows "take 2 (fst (interparcelSession e input)) =
           [Fetch (AvailabilityReq (interparcelParams input) (shipmentType input)),
            Fetch (QuotePageReq (SelectService (quotePageParams input)) [])]"
proof -
  obtain evs r where l: "quotePageLoop e 0 (SelectService (quotePageParams input)) [] = (evs, r)"
    by (cases "quotePageLoop e 0 (SelectService (quotePageParams input)) []")
  with quotePageLoop_first [of e "SelectService (quotePageParams input)" "[]"]
  obtain rest where "evs = Fetch (QuotePageReq (SelectService (quotePageParams input)) []) # rest"
    by auto
  with l assms show ?thesis
    by (auto simp: interparcelSession_def Let_def split: sum.splits option.splits prod.splits)
qed

lemma interparcelQuotes_events:
  "\<forall>ev \<in> set (fst (interparcelQuotes e ps isB2b svcs ck tok)).
     \<exists>sid. ev = Fetch (QuoteReq ps sid ck tok)"
  by (auto simp: interparcelQuotes_def Let_def)

lemma getInterparcel_session_events:
  "\<exists>rest. fst (getInterparcelShippingServices e input) = fst (interparcelSession e input) @ rest"
  by (cases "interparcelSession e input")
     (auto simp: getInterparcelShippingServices_def split: sum.splits prod.splits)

lemma getInterparcel_quote_events:
  assumes "snd (interparcelSession e input) = Inr (svcs, ck, tok)"
  shows "fst (getInterparcelShippingServices e input) =
           fst (interparcelSession e input) @
           map (\<lambda>s. Fetch (QuoteReq (interparcelParams input) (service_id s) ck tok))
             (candidateServices (b2b input) svcs)"
proof -
  obtain evs where s: "interparcelSession e input = (evs, Inr (svcs, ck, tok))"
    using assms by (cases "interparcelSession e input") simp
  show ?thesis
    by (simp add: getInterparcelShippingServices_def s interparcelQuotes_def Let_def)
qed

lemma getInterparcel_requests:
  "\<exists>rest. fst (getInterparcelShippingServices e input) =
            Fetch (AvailabilityReq (interparcelParams input) (shipmentType input)) # rest \<and>
          (\<forall>ev \<in> set rest.
             (\<exists>u jar. ev = Fetch (QuotePageReq u jar) \<and>
                (u = SelectService (quotePageParams input) \<or> (\<exists>l. u = Url l))) \<or>
             (\<exists>sid ck tok. ev = Fetch (QuoteReq (interparcelParams input) sid ck tok)))"
proof -
  obtain evs r where s: "interparcelSession e input = (evs, r)" by (cases "interparcelSession e input")
  from interparcelSession_requests [of e input] s
  obtain rest where rest: "evs = Fetch (AvailabilityReq (interparcelParams input) (shipmentType input)) # rest"
    "\<forall>ev \<in> set rest. \<exists>u jar. ev = Fetch (QuotePageReq u jar) \<and>
             (u = SelectService (quotePageParams input) \<or> (\<exists>l. u = Url l))" by auto
  show ?thesis
  proof (cases r)
    case (Inl err)
    with s rest show ?thesis by (auto simp: getInterparcelShippingServices_def)
  next
    case (Inr tr)
    obtain svcs ck tok where tr: "tr = (svcs, ck, tok)" by (cases tr)
    let ?q = "fst (interparcelQuotes e (interparcelParams input) (b2b input) svcs ck tok)"
    have "fst (getInterparcelShippingServices e input) =
            Fetch (AvailabilityReq (interparcelParams input) (shipmentType input)) # (rest @ ?q)"
      using s Inr tr rest(1) by (simp add: getInterparcelShippingServices_def)
    moreover have "\<forall>ev \<in> set (rest @ ?q).
             (\<exists>u jar. ev = Fetch (QuotePageReq u jar) \<and>
                (u = SelectService (quotePageParams input) \<or> (\<exists>l. u = Url l))) \<or>
             (\<exists>sid ck tok. ev = Fetch (QuoteReq (interparcelParams input) sid ck tok))"
      using rest(2) interparcelQuotes_events [of e "interparcelParams input" "b2b input" svcs ck tok]
      by auto
    ultimately show ?thesis by blast
  qed
qed

lemma getInterparcel_page:
  assumes "fetchAvailability e (AvailabilityReq (interparcelParams input) (shipmentType input)) =
             Inr avail"
    and "errorMessage avail = []"
  shows "take 2 (fst (getInterparcelShippingServices e input)) =
           [Fetch (AvailabilityReq (interparcelParams input) (shipmentType input)),
            Fetch (QuotePageReq (SelectService (quotePageParams input)) [])]"
proof -
  from interparcelSession_page [OF assms]
  have t: "take 2 (fst (interparcelSession e input)) =
        [Fetch (AvailabilityReq (interparcelParams input) (shipmentType input)),
         Fetch (QuotePageReq (SelectService (quotePageParams input)) [])]" .
  then have "length (fst (interparcelSession e input)) \<ge> 2"
    by (metis length_take min.cobounded1 length_Cons list.size(3) One_nat_def Suc_1)
  moreover obtain r where "fst (getInterparcelShippingServices e input) =
      fst (interparcelSession e input) @ r"
    using getInterparcel_session_events [of e input] by blast
  ultimately show ?thesis using t by simp
qed

section \<open>The claims\<close>

subsection \<open>C1: a freight-broker failure on a heavy request\<close>

text \<open>
  Claim C1, as the code has it. For a request with \<open>weight \<ge> 20\<close> on which
  \<open>getInterparcelShippingServices\<close> throws: when the destination is \<open>AU\<close> the
  exception is swallowed and the procedure returns the pickup option alone, behind the
  admin option when the caller is an administrator; when the destination is not \<open>AU\<close>
  the same exception reaches the caller and no list is returned.
\<close>

theorem heavy_freight_failure:
  assumes "weight input \<ge> 20"
    and "snd (getInterparcelShippingServices e input) = Inl err"
  shows "(destinationCountry input = ''AU'' \<longrightarrow>
            snd (getShippingServices e a input) =
              Inr (if a = Some True then [adminShippingOption, pickupShippingOption]
                   else [pickupShippingOption])) \<and>
         (destinationCountry input \<noteq> ''AU'' \<longrightarrow>
            snd (getShippingServices e a input) = Inl err)"
  using assms by (simp add: heavy_result adminPrefix_def)

text \<open>
  The instances of the theorem at a request of 25 kg on which no carrier can be reached:
  to \<open>AU\<close> for a customer and for an administrator, and to \<open>US\<close>.
\<close>

theorem heavy_freight_failure_witness:
  "snd (getShippingServices unreachableEnv None (exampleInput 25 ''AU'')) =
     Inr [pickupShippingOption] \<and>
   snd (getShippingServices unreachableEnv (Some True) (exampleInput 25 ''AU'')) =
     Inr [adminShippingOption, pickupShippingOption] \<and>
   snd (getShippingServices unreachableEnv None (exampleInput 25 ''US'')) =
     Inl (Error ''fetch failed'')"
  using heavy_freight_failure [of "exampleInput 25 ''AU''" unreachableEnv "Error ''fetch failed''" None]
    heavy_freight_failure [of "exampleInput 25 ''AU''" unreachableEnv "Error ''fetch failed''" "Some True"]
    heavy_freight_failure [of "exampleInput 25 ''US''" unreachableEnv "Error ''fetch failed''" None]
  by (simp add: unreachable_interparcel exampleInput_fields)

text \<open>
  C1 as it is stated asks for the pickup option alone on every such request to \<open>AU\<close>.
  For an administrator the list has two elements.
\<close>

theorem heavy_admin_failure_counterexample:
  "20 \<le> weight (exampleInput 25 ''AU'') \<and>
   destinationCountry (exampleInput 25 ''AU'') = ''AU'' \<and>
   snd (getInterparcelShippingServices unreachableEnv (exampleInput 25 ''AU'')) =
     Inl (Error ''fetch failed'') \<and>
   snd (getShippingServices unreachableEnv (Some True) (exampleInput 25 ''AU'')) =
     Inr [adminShippingOption, pickupShippingOption] \<and>
   snd (getShippingServices unreachableEnv (Some True) (exampleInput 25 ''AU'')) \<noteq>
     Inr [pickupShippingOption]"
  by (simp add: heavy_result unreachable_interparcel exampleInput_fields adminPrefix_def)

subsection \<open>C2: the length of the list\<close>

text \<open>
  Claim C2, as the code has it. Only the branch for \<open>weight < 20\<close> and destination
  \<open>AU\<close> cuts its list with \<open>slice(0, 4)\<close>: there the list has at most 4 options.
  For \<open>weight \<ge> 20\<close> the list is the freight broker's (at most 4) with the pickup
  option behind it for \<open>AU\<close> and the admin option in front of it: at most 6 options
  for \<open>AU\<close>, at most 5 otherwise. For \<open>weight < 20\<close> and another destination it is
  the carrier's list behind the admin option: at most 5 options from the freight
  broker, and from the international-postal client at most one more than the provider
  lists under an allowed name.
\<close>

theorem result_length_bounds:
  fixes e :: "('n::{zero,one}) env"
  assumes "snd (getShippingServices e a input) = Inr xs"
  shows "(weight input < 20 \<and> destinationCountry input = ''AU'' \<longrightarrow> length xs \<le> 4) \<and>
         (weight input \<ge> 20 \<and> destinationCountry input = ''AU'' \<longrightarrow> length xs \<le> 6) \<and>
         (weight input \<ge> 20 \<and> destinationCountry input \<noteq> ''AU'' \<longrightarrow> length xs \<le> 5) \<and>
         (weight input < 20 \<and> destinationCountry input \<noteq> ''AU'' \<and> \<not> allUnder105 input \<longrightarrow>
            length xs \<le> 5) \<and>
         (weight input < 20 \<and> destinationCountry input \<noteq> ''AU'' \<and> allUnder105 input \<longrightarrow>
            (\<forall>ss. fetchServices e (InternationalReq (destinationCountry input) (weight input)) = Inr ss
               \<longrightarrow> length xs \<le> length (filter (\<lambda>s. name s \<in> set supportedShippingMethods) ss) + 1))"
proof -
  have ap: "length (adminPrefix a :: 'n StripeShippingOption list) \<le> 1"
    by (rule adminPrefix_length)
  have heavy: "(destinationCountry input = ''AU'' \<longrightarrow> length xs \<le> 6) \<and>
               (destinationCountry input \<noteq> ''AU'' \<longrightarrow> length xs \<le> 5)"
    if w: "weight input \<ge> 20"
  proof (cases "snd (getInterparcelShippingServices e input)")
    case (Inl err)
    with assms ap show ?thesis
      by (auto simp: heavy_result [OF w] split: if_splits)
  next
    case (Inr ys)
    from getInterparcel_Inr [OF Inr] have "length ys \<le> 4" by simp
    with assms ap Inr show ?thesis
      by (auto simp: heavy_result [OF w] split: if_splits)
  qed
  have home: "length xs \<le> 4" if w: "weight input < 20" and c: "destinationCountry input = ''AU''"
  proof -
    from w have w': "\<not> weight input \<ge> 20" by simp
    from assms show ?thesis unfolding domestic_light_result [OF w' c] by auto
  qed
  have big: "length xs \<le> 5"
    if w: "weight input < 20" and c: "destinationCountry input \<noteq> ''AU''" and u: "\<not> allUnder105 input"
  proof -
    from w have w': "\<not> weight input \<ge> 20" by simp
    from assms u obtain ys where ys: "snd (getInterparcelShippingServices e input) = Inr ys"
      and xs: "xs = adminPrefix a @ ys"
      by (auto simp: foreign_light_result [OF w' c] split: sum.splits)
    from getInterparcel_Inr [OF ys] have "length ys \<le> 4" by simp
    with xs ap show ?thesis by simp
  qed
  have small: "length xs \<le> length (filter (\<lambda>s. name s \<in> set supportedShippingMethods) ss) + 1"
    if w: "weight input < 20" and c: "destinationCountry input \<noteq> ''AU''" and u: "allUnder105 input"
      and f: "fetchServices e (InternationalReq (destinationCountry input) (weight input)) = Inr ss"
    for ss
  proof -
    from w have w': "\<not> weight input \<ge> 20" by simp
    from assms u obtain ys
      where ys: "snd (getAusPostInternationalShippingServices e input) = Inr ys"
        and xs: "xs = adminPrefix a @ ys"
      by (auto simp: foreign_light_result [OF w' c] split: sum.splits)
    from getInternational_length [OF ys f] xs ap show ?thesis by simp
  qed
  from heavy home big small show ?thesis by blast
qed

text \<open>
  The instances on each branch: 5 kg to \<open>AU\<close> (seven options found, four returned),
  25 kg to \<open>AU\<close>, 25 kg to \<open>US\<close>, 5 kg with a length of 120 to \<open>US\<close>, and
  5 kg to \<open>US\<close>.
\<close>

theorem result_length_bounds_witness:
  "snd (getShippingServices workingEnv None (exampleInput 5 ''AU'')) =
     Inr [pickupShippingOption,
          fixedAmountOption 1060 ''AusPost Regular'',
          fixedAmountOption 1435 ''AusPost Express'',
          fixedAmountOption 4550 ''TNT - Road Express''] \<and>
   length [pickupShippingOption :: real StripeShippingOption,
          fixedAmountOption 1060 ''AusPost Regular'',
          fixedAmountOption 1435 ''AusPost Express'',
          fixedAmountOption 4550 ''TNT - Road Express''] \<le> 4 \<and>
   length [fixedAmountOption 4550 ''TNT - Road Express'',
          fixedAmountOption 3000 ''Aramex - Parcel'',
          fixedAmountOption 12000 ''Northline - Freight'',
          fixedAmountOption (8025 :: real) ''Direct Freight - Express'',
          pickupShippingOption] \<le> 6 \<and>
   length [adminShippingOption,
          fixedAmountOption 4550 ''TNT - Road Express'',
          fixedAmountOption 3000 ''Aramex - Parcel'',
          fixedAmountOption 12000 ''Northline - Freight'',
          fixedAmountOption (8025 :: real) ''Direct Freight - Express''] \<le> 5 \<and>
   length [adminShippingOption,
          fixedAmountOption 3215 ''Standard'', fixedAmountOption (4715 :: real) ''Express''] \<le>
     length (filter (\<lambda>s. name s \<in> set supportedShippingMethods)
       [\<lparr>code = ''INT_PARCEL_STD_OWN_PACKAGING'', name = ''Standard'', price = ''32.15''\<rparr>,
        \<lparr>code = ''INT_PARCEL_COR_OWN_PACKAGING'', name = ''Courier'', price = ''95.00''\<rparr>,
        \<lparr>code = ''INT_PARCEL_EXP_OWN_PACKAGING'', name = ''Express'', price = ''47.15''\<rparr>]) + 1"
  using result_length_bounds [OF workingEnv_light_AU] result_length_bounds [OF workingEnv_heavy_AU]
    result_length_bounds [OF workingEnv_heavy_US] result_length_bounds [OF workingEnv_long_US]
    result_length_bounds [OF workingEnv_light_US] workingEnv_light_AU
  by (simp add: exampleInput_fields longInput_fields workingEnv_fields)

text \<open>
  C2 as it is stated bounds every list by 4. At 25 kg to \<open>AU\<close>, with four quotes from
  the freight broker, a customer gets five options.
\<close>

theorem heavy_domestic_length_counterexample:
  "snd (getShippingServices workingEnv None (exampleInput 25 ''AU'')) =
     Inr [fixedAmountOption 4550 ''TNT - Road Express'',
          fixedAmountOption 3000 ''Aramex - Parcel'',
          fixedAmountOption 12000 ''Northline - Freight'',
          fixedAmountOption 8025 ''Direct Freight - Express'',
          pickupShippingOption] \<and>
   \<not> length [fixedAmountOption 4550 ''TNT - Road Express'',
          fixedAmountOption 3000 ''Aramex - Parcel'',
          fixedAmountOption 12000 ''Northline - Freight'',
          fixedAmountOption (8025 :: real) ''Direct Freight - Express'',
          pickupShippingOption] \<le> 4"
  by (simp add: heavy_result workingEnv_interparcel exampleInput_fields adminPrefix_def)

subsection \<open>C3: the carrier of a small parcel that leaves the country\<close>

text \<open>
  Claim C3, as the code has it. For a request with \<open>weight < 20\<close>, a destination other
  than \<open>AU\<close> and all three dimensions under 105, the only request the procedure sends
  is the one of \<open>getAusPostInternationalShippingServices\<close>: the international-postal
  client is the only carrier invoked and the freight broker is not called.
\<close>

theorem small_foreign_parcel_carrier:
  assumes "weight input < 20"
    and "destinationCountry input \<noteq> ''AU''"
    and "length_dim input < 105" and "width input < 105" and "height input < 105"
  shows "fst (getShippingServices e a input) =
           [Fetch (InternationalReq (destinationCountry input) (weight input))] \<and>
         invoked (fst (getShippingServices e a input)) = [InternationalPostal] \<and>
         FreightBroker \<notin> set (invoked (fst (getShippingServices e a input)))"
proof -
  from assms(3-5) have u: "allUnder105 input" by (simp add: allUnder105_def)
  from assms(1) have w: "\<not> weight input \<ge> 20" by simp
  have "fst (getShippingServices e a input) = fst (getAusPostInternationalShippingServices e input)"
    using u by (simp add: foreign_light [OF w assms(2)] split: prod.splits sum.splits)
  then show ?thesis by (simp add: getInternational_events)
qed

text \<open>The instance at a parcel of 5 kg, 50 by 40 by 30, to \<open>US\<close>.\<close>

theorem small_foreign_parcel_carrier_witness:
  "fst (getShippingServices workingEnv None (exampleInput 5 ''US'')) =
     [Fetch (InternationalReq ''US'' 5)] \<and>
   invoked (fst (getShippingServices workingEnv None (exampleInput 5 ''US''))) =
     [InternationalPostal]"
  using small_foreign_parcel_carrier [of "exampleInput 5 ''US''" workingEnv None]
  by (simp add: exampleInput_fields)

text \<open>
  C3 as it is stated has no condition on the weight. The test \<open>weight >= 20\<close> comes
  first in the procedure: a parcel of 25 kg with the same dimensions, to \<open>US\<close>, goes to
  the freight broker, and the international-postal client is not invoked, whether the
  freight broker answers or cannot be reached.
\<close>

theorem heavy_small_foreign_counterexample:
  "length_dim (exampleInput 25 ''US'') < 105 \<and> width (exampleInput 25 ''US'') < 105 \<and>
   height (exampleInput 25 ''US'') < 105 \<and> destinationCountry (exampleInput 25 ''US'') \<noteq> ''AU'' \<and>
   set (invoked (fst (getShippingServices workingEnv None (exampleInput 25 ''US'')))) =
     {FreightBroker} \<and>
   invoked (fst (getShippingServices unreachableEnv None (exampleInput 25 ''US''))) =
     [FreightBroker]"
proof -
  have "set (invoked (fst (getShippingServices workingEnv None (exampleInput 25 ''US'')))) =
     {FreightBroker}"
    by (simp add: carriers_invoked exampleInput_fields)
  moreover have "invoked (fst (getShippingServices unreachableEnv None (exampleInput 25 ''US''))) =
     [FreightBroker]"
    by (simp add: heavy_invoked unreachable_interparcel exampleInput_fields)
  ultimately show ?thesis by (simp add: exampleInput_fields)
qed

subsection \<open>C4: the per-service calls of the freight-broker client\<close>

text \<open>
  Claim C4. Once the availability call and the session have succeeded: a per-service
  call that throws, has a status that is not a success or has no service in its answer
  settles with \<open>null\<close> and is left out, and only such a call is; the client throws
  \<open>Unable to ship this item to the destination country\<close> if and only if no call of
  the batch gave a quote; otherwise it returns the quotes of the calls that gave one, in
  the provider's order, cut to the first four and not sorted.
\<close>

theorem freight_quotes_settled:
  assumes "snd (interparcelSession e input) = Inr (svcs, ck, tok)"
  shows "(\<forall>i req. (settleQuote e i req = None) = unavailable (fetchQuote e i req)) \<and>
         (snd (getInterparcelShippingServices e input) =
            Inl (Error ''Unable to ship this item to the destination country'')) =
           (filter (\<lambda>r. \<not> unavailable r)
              (quoteOutcomes e (interparcelParams input) (b2b input) svcs ck tok) = []) \<and>
         (filter (\<lambda>r. \<not> unavailable r)
              (quoteOutcomes e (interparcelParams input) (b2b input) svcs ck tok) \<noteq> [] \<longrightarrow>
          snd (getInterparcelShippingServices e input) =
            Inr (take 4 (map (quoteOf e)
                   (filter (\<lambda>r. \<not> unavailable r)
                      (quoteOutcomes e (interparcelParams input) (b2b input) svcs ck tok)))))"
proof -
  obtain evs where s: "interparcelSession e input = (evs, Inr (svcs, ck, tok))"
    using assms by (cases "interparcelSession e input") simp
  have "snd (getInterparcelShippingServices e input) =
          snd (interparcelQuotes e (interparcelParams input) (b2b input) svcs ck tok)"
    by (simp add: getInterparcelShippingServices_def s)
  then show ?thesis
    by (simp add: interparcelQuotes_result settleQuote_unavailable Let_def)
qed

text \<open>
  The instances at 25 kg to \<open>AU\<close>: with five quotes among the eight calls the first
  four are returned; with every call refused the client throws.
\<close>

theorem freight_quotes_settled_witness:
  "snd (getInterparcelShippingServices workingEnv (exampleInput 25 ''AU'')) =
     Inr [fixedAmountOption 4550 ''TNT - Road Express'',
          fixedAmountOption 3000 ''Aramex - Parcel'',
          fixedAmountOption 12000 ''Northline - Freight'',
          fixedAmountOption 8025 ''Direct Freight - Express''] \<and>
   snd (getInterparcelShippingServices noQuoteEnv (exampleInput 25 ''AU'')) =
     Inl (Error ''Unable to ship this item to the destination country'')"
proof -
  let ?ps = "interparcelParams (exampleInput 25 ''AU'')"
  have b: "b2b (exampleInput 25 ''AU'') = False" by (simp add: exampleInput_fields)
  have "filter (\<lambda>r. \<not> unavailable r)
          (quoteOutcomes workingEnv ?ps False exampleServices ''PHPSESSID=abc123'' ''tok'') \<noteq> []"
    using workingEnv_outcomes [of ?ps "''PHPSESSID=abc123''" "''tok''"] by auto
  with freight_quotes_settled [OF workingEnv_session, of "exampleInput 25 ''AU''"]
  have 1: "snd (getInterparcelShippingServices workingEnv (exampleInput 25 ''AU'')) =
     Inr [fixedAmountOption 4550 ''TNT - Road Express'',
          fixedAmountOption 3000 ''Aramex - Parcel'',
          fixedAmountOption 12000 ''Northline - Freight'',
          fixedAmountOption 8025 ''Direct Freight - Express'']"
    by (simp add: b workingEnv_outcomes)
  from freight_quotes_settled [OF noQuoteEnv_session, of "exampleInput 25 ''AU''"]
  have 2: "snd (getInterparcelShippingServices noQuoteEnv (exampleInput 25 ''AU'')) =
     Inl (Error ''Unable to ship this item to the destination country'')"
    by (simp add: noQuoteEnv_outcomes)
  from 1 2 show ?thesis by simp
qed

subsection \<open>C5: the admin option comes first\<close>

text \<open>
  Claim C5. For a caller with \<open>isAdmin\<close> true, whichever branch runs and whatever the
  carriers answer, every list that \<open>getShippingServices\<close> returns starts with the
  option \<open>Admin Shipping\<close>, priced at 1 minor unit of \<open>aud\<close>. For the destination
  \<open>AU\<close> a list is always returned; for another destination the procedure returns a
  list or passes on the failure of its carrier.
\<close>

theorem admin_option_first:
  "(\<forall>xs. snd (getShippingServices e (Some True) input) = Inr xs \<longrightarrow>
      xs \<noteq> [] \<and> hd xs = adminShippingOption \<and>
      display_name (shipping_rate_data (hd xs)) = ''Admin Shipping'' \<and>
      amount (fixed_amount (shipping_rate_data (hd xs))) = 1 \<and>
      currency (fixed_amount (shipping_rate_data (hd xs))) = ''aud'') \<and>
   (destinationCountry input = ''AU'' \<longrightarrow>
      (\<exists>ys. snd (getShippingServices e (Some True) input) = Inr (adminShippingOption # ys)))"
proof -
  let ?r = "snd (getShippingServices e (Some True) input)"
  have shape: "\<exists>ys. xs = adminShippingOption # ys" if "?r = Inr xs" for xs
  proof (cases "weight input \<ge> 20")
    case True
    from that show ?thesis
      by (auto simp: heavy_result [OF True] adminPrefix_def split: sum.splits if_splits)
  next
    case False
    show ?thesis
    proof (cases "destinationCountry input = ''AU''")
      case True
      from that take4_adminPrefix show ?thesis
        unfolding domestic_light_result [OF False True] by (metis sum.inject(2))
    next
      case False2: False
      from that show ?thesis
        by (auto simp: foreign_light [OF False False2] adminPrefix_def split: sum.splits prod.splits)
    qed
  qed
  have au: "\<exists>ys. ?r = Inr (adminShippingOption # ys)" if au: "destinationCountry input = ''AU''"
  proof (cases "weight input \<ge> 20")
    case True
    from au show ?thesis
      by (auto simp: heavy_result [OF True] adminPrefix_def split: sum.splits)
  next
    case False
    from take4_adminPrefix show ?thesis
      unfolding domestic_light_result [OF False au] by (metis)
  qed
  have "xs \<noteq> [] \<and> hd xs = adminShippingOption \<and>
      display_name (shipping_rate_data (hd xs)) = ''Admin Shipping'' \<and>
      amount (fixed_amount (shipping_rate_data (hd xs))) = 1 \<and>
      currency (fixed_amount (shipping_rate_data (hd xs))) = ''aud''" if "?r = Inr xs" for xs
  proof -
    from shape [OF that] obtain ys where "xs = adminShippingOption # ys" ..
    then show ?thesis by (simp add: adminShippingOption_def)
  qed
  with au show ?thesis by blast
qed

text \<open>
  The instances for an administrator at the three branches: 25 kg to \<open>AU\<close>, 5 kg to
  \<open>US\<close>, 5 kg to \<open>AU\<close> (where the list is cut to four options).
\<close>

theorem admin_option_first_witness:
  "snd (getShippingServices workingEnv (Some True) (exampleInput 25 ''AU'')) =
     Inr [adminShippingOption,
          fixedAmountOption 4550 ''TNT - Road Express'',
          fixedAmountOption 3000 ''Aramex - Parcel'',
          fixedAmountOption 12000 ''Northline - Freight'',
          fixedAmountOption 8025 ''Direct Freight - Express'',
          pickupShippingOption] \<and>
   snd (getShippingServices workingEnv (Some True) (exampleInput 5 ''US'')) =
     Inr [adminShippingOption,
          fixedAmountOption 3215 ''Standard'', fixedAmountOption 4715 ''Express''] \<and>
   snd (getShippingServices workingEnv (Some True) (exampleInput 5 ''AU'')) =
     Inr [adminShippingOption, pickupShippingOption,
          fixedAmountOption 1060 ''AusPost Regular'', fixedAmountOption 1435 ''AusPost Express'']"
  using admin_option_first [of workingEnv "exampleInput 25 ''AU''"]
    admin_option_first [of workingEnv "exampleInput 5 ''US''"]
    admin_option_first [of workingEnv "exampleInput 5 ''AU''"]
  by (simp add: heavy_result domestic_light_result foreign_light_result workingEnv_interparcel
        workingEnv_domestic workingEnv_international
        exampleInput_fields adminPrefix_def swallow_snd split: prod.splits)

subsection \<open>C6: the two tiers of the domestic-postal client\<close>

text \<open>
  Claim C6, as the code has it. On a provider response \<open>ss\<close>,
  \<open>getDomesticShippingServices\<close> throws \<open>Shipping not available\<close> when the regular or
  the express code is absent from \<open>ss\<close>. When both are present it looks at the first
  service of each code: it returns exactly the two options, regular then express, when
  both of these prices are non-empty strings, and throws the same error when one of them
  is the empty string. It never returns a partial list.
\<close>

theorem domestic_both_tiers:
  assumes "fetchServices e (DomesticReq (length_dim input) (width input) (height input)
             (weight input) ''3180'' (destinationPostcode input)) = Inr ss"
  shows "(''AUS_PARCEL_REGULAR'' \<notin> code ` set ss \<or> ''AUS_PARCEL_EXPRESS'' \<notin> code ` set ss \<longrightarrow>
            snd (getDomesticShippingServices e input) = Inl (Error ''Shipping not available'')) \<and>
         (\<forall>r x. find (\<lambda>s. code s = ''AUS_PARCEL_REGULAR'') ss = Some r \<and>
                find (\<lambda>s. code s = ''AUS_PARCEL_EXPRESS'') ss = Some x \<longrightarrow>
            snd (getDomesticShippingServices e input) =
              (if price r = [] \<or> price x = [] then Inl (Error ''Shipping not available'')
               else Inr [fixedAmountOption (ceil_x100 e (Number_of e (price r))) ''AusPost Regular'',
                         fixedAmountOption (ceil_x100 e (Number_of e (price x))) ''AusPost Express''])) \<and>
         (\<forall>xs. snd (getDomesticShippingServices e input) = Inr xs \<longrightarrow>
            map (\<lambda>x. display_name (shipping_rate_data x)) xs = [''AusPost Regular'', ''AusPost Express''])"
proof -
  have absent: "find (\<lambda>s. code s = c) ss = None" if "c \<notin> code ` set ss" for c
    using that by (auto simp: find_None_iff)
  have a: "snd (getDomesticShippingServices e input) = Inl (Error ''Shipping not available'')"
    if "''AUS_PARCEL_REGULAR'' \<notin> code ` set ss \<or> ''AUS_PARCEL_EXPRESS'' \<notin> code ` set ss"
  proof -
    from that absent
    have "find_price ''AUS_PARCEL_REGULAR'' ss = None \<or> find_price ''AUS_PARCEL_EXPRESS'' ss = None"
      by (auto simp: find_price_def)
    with assms show ?thesis
      by (auto simp: getDomesticShippingServices_def partedEuroAddress_def Let_def
            split: option.splits)
  qed
  have b: "snd (getDomesticShippingServices e input) =
              (if price r = [] \<or> price x = [] then Inl (Error ''Shipping not available'')
               else Inr [fixedAmountOption (ceil_x100 e (Number_of e (price r))) ''AusPost Regular'',
                         fixedAmountOption (ceil_x100 e (Number_of e (price x))) ''AusPost Express''])"
    if "find (\<lambda>s. code s = ''AUS_PARCEL_REGULAR'') ss = Some r"
      and "find (\<lambda>s. code s = ''AUS_PARCEL_EXPRESS'') ss = Some x" for r x
    using that assms
    by (simp add: getDomesticShippingServices_def partedEuroAddress_def find_price_def)
  have c: "map (\<lambda>x. display_name (shipping_rate_data x)) xs = [''AusPost Regular'', ''AusPost Express'']"
    if "snd (getDomesticShippingServices e input) = Inr xs" for xs
    using that assms
    by (auto simp: getDomesticShippingServices_def partedEuroAddress_def fixedAmountOption_def
          Let_def split: option.splits if_splits)
  from a b c show ?thesis by blast
qed

text \<open>
  The instances at 5 kg to \<open>AU\<close>: the provider lists both tiers with a price, and
  the provider lists the regular tier only.
\<close>

theorem domestic_both_tiers_witness:
  "snd (getDomesticShippingServices workingEnv (exampleInput 5 ''AU'')) =
     Inr [fixedAmountOption (ceil_x100 workingEnv (Number_of workingEnv ''10.60'')) ''AusPost Regular'',
          fixedAmountOption (ceil_x100 workingEnv (Number_of workingEnv ''14.35'')) ''AusPost Express''] \<and>
   snd (getDomesticShippingServices regularOnlyEnv (exampleInput 5 ''AU'')) =
     Inl (Error ''Shipping not available'')"
proof -
  have f: "fetchServices workingEnv
             (DomesticReq (length_dim (exampleInput 5 ''AU'')) (width (exampleInput 5 ''AU''))
                (height (exampleInput 5 ''AU'')) (weight (exampleInput 5 ''AU'')) ''3180''
                (destinationPostcode (exampleInput 5 ''AU''))) =
           Inr [\<lparr>code = ''AUS_PARCEL_REGULAR'', name = ''Parcel Post'', price = ''10.60''\<rparr>,
                \<lparr>code = ''AUS_PARCEL_EXPRESS'', name = ''Express Post'', price = ''14.35''\<rparr>]"
    by (simp add: workingEnv_fields)
  have g: "fetchServices regularOnlyEnv
             (DomesticReq (length_dim (exampleInput 5 ''AU'')) (width (exampleInput 5 ''AU''))
                (height (exampleInput 5 ''AU'')) (weight (exampleInput 5 ''AU'')) ''3180''
                (destinationPostcode (exampleInput 5 ''AU''))) =
           Inr [\<lparr>code = ''AUS_PARCEL_REGULAR'', name = ''Parcel Post'', price = ''10.60''\<rparr>]"
    by (simp add: regularOnlyEnv_def)
  from domestic_both_tiers [OF f] domestic_both_tiers [OF g] show ?thesis by simp
qed

text \<open>
  C6 as it is stated promises the two options whenever both codes are present. The test
  of the source is \<open>!express || !regular\<close> on the prices: with both codes in the
  response and the empty string as the express price, the client throws.
\<close>

theorem domestic_empty_price_counterexample:
  "fetchServices emptyPriceEnv (DomesticReq 50 40 30 5 ''3180'' (Some ''3000'')) =
     Inr [\<lparr>code = ''AUS_PARCEL_REGULAR'', name = ''Parcel Post'', price = ''10.60''\<rparr>,
          \<lparr>code = ''AUS_PARCEL_EXPRESS'', name = ''Express Post'', price = []\<rparr>] \<and>
   fst (getDomesticShippingServices emptyPriceEnv (exampleInput 5 ''AU'')) =
     [Fetch (DomesticReq 50 40 30 5 ''3180'' (Some ''3000''))] \<and>
   snd (getDomesticShippingServices emptyPriceEnv (exampleInput 5 ''AU'')) =
     Inl (Error ''Shipping not available'')"
  by (simp add: getDomesticShippingServices_def emptyPriceEnv_def unreachableEnv_def
        exampleInput_def partedEuroAddress_def find_price_def)

subsection \<open>C7: the allow-list of the international-postal client\<close>

text \<open>
  Claim C7. On a provider response \<open>ss\<close>, \<open>getAusPostInternationalShippingServices\<close>
  returns the options of exactly the services of \<open>ss\<close> named \<open>Standard\<close> or
  \<open>Express\<close>, in the provider's order; the other services are dropped. A name
  outside the list never makes the client fail: when it fails, the exception is the one
  of the call to the provider.
\<close>

theorem international_allow_list:
  "(\<forall>ss. fetchServices e (InternationalReq (destinationCountry input) (weight input)) = Inr ss \<longrightarrow>
      snd (getAusPostInternationalShippingServices e input) =
        Inr (map (\<lambda>s. fixedAmountOption (ceil_x100 e (Number_of e (price s))) (name s))
               (filter (\<lambda>s. name s = ''Standard'' \<or> name s = ''Express'') ss))) \<and>
   (\<forall>err. snd (getAusPostInternationalShippingServices e input) = Inl err \<longrightarrow>
      fetchServices e (InternationalReq (destinationCountry input) (weight input)) = Inl err)"
proof -
  have "filter (\<lambda>s. display_name (shipping_rate_data s) \<in> set supportedShippingMethods)
          (map (\<lambda>s. fixedAmountOption (ceil_x100 e (Number_of e (price s))) (name s)) ss) =
        map (\<lambda>s. fixedAmountOption (ceil_x100 e (Number_of e (price s))) (name s))
          (filter (\<lambda>s. name s = ''Standard'' \<or> name s = ''Express'') ss)" for ss :: "AusPostShippingService list"
    by (induction ss) (auto simp: fixedAmountOption_def supportedShippingMethods_def)
  then show ?thesis
    by (auto simp: getAusPostInternationalShippingServices_def Let_def split: sum.splits)
qed

text \<open>
  The instances at 5 kg to \<open>US\<close>: of \<open>Standard\<close>, \<open>Courier\<close> and \<open>Express\<close> the
  second is dropped; and when the provider cannot be reached the client fails with the
  exception of the call.
\<close>

theorem international_allow_list_witness:
  "fetchServices workingEnv (InternationalReq ''US'' 5) =
     Inr [\<lparr>code = ''INT_PARCEL_STD_OWN_PACKAGING'', name = ''Standard'', price = ''32.15''\<rparr>,
          \<lparr>code = ''INT_PARCEL_COR_OWN_PACKAGING'', name = ''Courier'', price = ''95.00''\<rparr>,
          \<lparr>code = ''INT_PARCEL_EXP_OWN_PACKAGING'', name = ''Express'', price = ''47.15''\<rparr>] \<and>
   snd (getAusPostInternationalShippingServices workingEnv (exampleInput 5 ''US'')) =
     Inr [fixedAmountOption (ceil_x100 workingEnv (Number_of workingEnv ''32.15'')) ''Standard'',
          fixedAmountOption (ceil_x100 workingEnv (Number_of workingEnv ''47.15'')) ''Express''] \<and>
   snd (getAusPostInternationalShippingServices unreachableEnv (exampleInput 5 ''US'')) =
     Inl (Error ''fetch failed'') \<and>
   fetchServices unreachableEnv (InternationalReq ''US'' 5) = Inl (Error ''fetch failed'')"
proof -
  have u: "snd (getAusPostInternationalShippingServices unreachableEnv (exampleInput 5 ''US'')) =
     Inl (Error ''fetch failed'')"
    by (simp add: getAusPostInternationalShippingServices_def unreachableEnv_def)
  from international_allow_list [of workingEnv "exampleInput 5 ''US''"]
    international_allow_list [of unreachableEnv "exampleInput 5 ''US''"] u
  show ?thesis by (simp add: exampleInput_fields workingEnv_fields)
qed

subsection \<open>C8: the amount in minor units\<close>

text \<open>
  Claim C8 says that the amount of an option is the ceiling of \<open>p * 100\<close> for the
  price \<open>p\<close> of the carrier. The clients compute \<open>Math.ceil(Number(p) * 100)\<close> in
  doubles. For the prices 1.10 and 16.10 of a postal provider the product is the double
  next above 110 and 1610, and the international and the domestic client return the
  amounts 111 and 1611, where the ceilings of \<open>p * 100\<close> are 110 and 1610.
\<close>

theorem ceiling_of_double_product:
  "snd (getAusPostInternationalShippingServices binary64Env (exampleInput 5 ''US'')) =
     Inr [fixedAmountOption (Num 111) ''Standard'', fixedAmountOption (Num 1611) ''Express''] \<and>
   snd (getDomesticShippingServices binary64Env (exampleInput 5 ''AU'')) =
     Inr [fixedAmountOption (Num 111) ''AusPost Regular'',
          fixedAmountOption (Num 1611) ''AusPost Express''] \<and>
   \<lceil>(110 / 100 :: real) * 100\<rceil> = 110 \<and> \<lceil>(1610 / 100 :: real) * 100\<rceil> = 1610"
proof -
  have f: "fetchServices binary64Env = pricedPostal" "Number_of binary64Env = Number_js"
    "ceil_x100 binary64Env = ceil_x100_js"
    by (simp_all add: binary64Env_def)
  have i: "snd (getAusPostInternationalShippingServices binary64Env (exampleInput 5 ''US'')) =
     Inr [fixedAmountOption (Num 111) ''Standard'', fixedAmountOption (Num 1611) ''Express'']"
    by (simp add: getAusPostInternationalShippingServices_def f cents_1_10 cents_16_10
          supportedShippingMethods_def fixedAmountOption_name)
  have d: "snd (getDomesticShippingServices binary64Env (exampleInput 5 ''AU'')) =
     Inr [fixedAmountOption (Num 111) ''AusPost Regular'',
          fixedAmountOption (Num 1611) ''AusPost Express'']"
    by (simp add: getDomesticShippingServices_def f find_price_def cents_1_10 cents_16_10)
  from i d show ?thesis by simp
qed

subsection \<open>C9: the queries sent to the freight broker\<close>

text \<open>
  Claim C9, as the code has it. The first request of \<open>getInterparcelShippingServices\<close>
  is the availability query, and it is the only availability query. Its type is
  \<open>pallet\<close> exactly when \<open>weight \<ge> 35\<close> and \<open>parcel\<close> otherwise. Its package, which
  every per-service quote query carries as well, is the weight with the dimensions padded
  exactly when \<open>weight > 35\<close>, by the sums of doubles \<open>length + 30\<close>, \<open>width + 30\<close> and
  \<open>height + 10\<close>, and with the dimensions as given otherwise: at weight 35 the type is
  \<open>pallet\<close> and the dimensions are not padded. Once the session is open, the per-service
  queries are those of the candidate services, in their order. The page that opens the
  session is the second request when the availability call has answered without an error
  message; it carries the same type and the dimensions as given, whatever the weight.
\<close>

theorem freight_query_shape:
  "(fst (getInterparcelShippingServices e input) \<noteq> [] \<and>
    hd (fst (getInterparcelShippingServices e input)) =
      Fetch (AvailabilityReq (interparcelParams input) (shipmentType input))) \<and>
   (\<forall>ps ty. Fetch (AvailabilityReq ps ty) \<in> set (fst (getInterparcelShippingServices e input)) \<longrightarrow>
      ps = interparcelParams input \<and> ty = shipmentType input) \<and>
   (\<forall>ps sid ck tok. Fetch (QuoteReq ps sid ck tok) \<in> set (fst (getInterparcelShippingServices e input)) \<longrightarrow>
      ps = interparcelParams input) \<and>
   (\<forall>svcs ck tok. snd (interparcelSession e input) = Inr (svcs, ck, tok) \<longrightarrow>
      fst (getInterparcelShippingServices e input) =
        fst (interparcelSession e input) @
        map (\<lambda>s. Fetch (QuoteReq (interparcelParams input) (service_id s) ck tok))
          (candidateServices (b2b input) svcs)) \<and>
   (\<forall>qp jar. Fetch (QuotePageReq (SelectService qp) jar) \<in>
        set (fst (getInterparcelShippingServices e input)) \<longrightarrow>
      qp = quotePageParams input) \<and>
   (\<forall>avail. fetchAvailability e (AvailabilityReq (interparcelParams input) (shipmentType input)) =
        Inr avail \<and> errorMessage avail = [] \<longrightarrow>
      take 2 (fst (getInterparcelShippingServices e input)) =
        [Fetch (AvailabilityReq (interparcelParams input) (shipmentType input)),
         Fetch (QuotePageReq (SelectService (quotePageParams input)) [])]) \<and>
   ((shipmentType input = ''pallet'') = (weight input \<ge> 35) \<and>
    (shipmentType input = ''parcel'') = (weight input < 35)) \<and>
   pkg_0_0 (interparcelParams input) = weight input \<and>
   (weight input > 35 \<longrightarrow>
      pkg_0_1 (interparcelParams input) = binary64 (length_dim input + 30) \<and>
      pkg_0_2 (interparcelParams input) = binary64 (width input + 30) \<and>
      pkg_0_3 (interparcelParams input) = binary64 (height input + 10)) \<and>
   (\<not> weight input > 35 \<longrightarrow>
      pkg_0_1 (interparcelParams input) = length_dim input \<and>
      pkg_0_2 (interparcelParams input) = width input \<and>
      pkg_0_3 (interparcelParams input) = height input) \<and>
   (weight input = 35 \<longrightarrow>
      shipmentType input = ''pallet'' \<and>
      pkg_0_1 (interparcelParams input) = length_dim input \<and>
      pkg_0_2 (interparcelParams input) = width input \<and>
      pkg_0_3 (interparcelParams input) = height input) \<and>
   (p_weight (quotePageParams input) = weight input \<and>
    p_length (quotePageParams input) = length_dim input \<and>
    p_width (quotePageParams input) = width input \<and>
    p_height (quotePageParams input) = height input \<and>
    p_t (quotePageParams input) = shipmentType input)"
proof -
  let ?evs = "fst (getInterparcelShippingServices e input)"
  from getInterparcel_requests [of e input]
  obtain rest where rest: "?evs =
            Fetch (AvailabilityReq (interparcelParams input) (shipmentType input)) # rest"
    "\<forall>ev \<in> set rest.
             (\<exists>u jar. ev = Fetch (QuotePageReq u jar) \<and>
                (u = SelectService (quotePageParams input) \<or> (\<exists>l. u = Url l))) \<or>
             (\<exists>sid ck tok. ev = Fetch (QuoteReq (interparcelParams input) sid ck tok))"
    by blast
  have 1: "?evs \<noteq> [] \<and> hd ?evs =
     Fetch (AvailabilityReq (interparcelParams input) (shipmentType input))" using rest(1) by simp
  have 2: "ps = interparcelParams input \<and> ty = shipmentType input"
    if "Fetch (AvailabilityReq ps ty) \<in> set ?evs" for ps ty
    using that rest by auto
  have 3: "ps = interparcelParams input"
    if "Fetch (QuoteReq ps sid ck tok) \<in> set ?evs" for ps sid ck tok
    using that rest by auto
  have 4: "?evs = fst (interparcelSession e input) @
        map (\<lambda>s. Fetch (QuoteReq (interparcelParams input) (service_id s) ck tok))
          (candidateServices (b2b input) svcs)"
    if "snd (interparcelSession e input) = Inr (svcs, ck, tok)" for svcs ck tok
    using that by (rule getInterparcel_quote_events)
  have 5: "qp = quotePageParams input"
    if "Fetch (QuotePageReq (SelectService qp) jar) \<in> set ?evs" for qp jar
    using that rest by auto
  have 6: "take 2 ?evs =
        [Fetch (AvailabilityReq (interparcelParams input) (shipmentType input)),
         Fetch (QuotePageReq (SelectService (quotePageParams input)) [])]"
    if "fetchAvailability e (AvailabilityReq (interparcelParams input) (shipmentType input)) =
        Inr avail \<and> errorMessage avail = []" for avail
    using that by (blast intro: getInterparcel_page)
  have 7: "(shipmentType input = ''pallet'') = (weight input \<ge> 35) \<and>
    (shipmentType input = ''parcel'') = (weight input < 35)"
    by (auto simp: shipmentType_def)
  have 8: "pkg_0_0 (interparcelParams input) = weight input"
    by (simp add: interparcelParams_def)
  have 9: "pkg_0_1 (interparcelParams input) = binary64 (length_dim input + 30) \<and>
      pkg_0_2 (interparcelParams input) = binary64 (width input + 30) \<and>
      pkg_0_3 (interparcelParams input) = binary64 (height input + 10)" if "weight input > 35"
    using that by (simp add: interparcelParams_def)
  have 10: "pkg_0_1 (interparcelParams input) = length_dim input \<and>
      pkg_0_2 (interparcelParams input) = width input \<and>
      pkg_0_3 (interparcelParams input) = height input" if "\<not> weight input > 35"
    using that by (simp add: interparcelParams_def)
  have 11: "shipmentType input = ''pallet'' \<and>
      pkg_0_1 (interparcelParams input) = length_dim input \<and>
      pkg_0_2 (interparcelParams input) = width input \<and>
      pkg_0_3 (interparcelParams input) = height input" if "weight input = 35"
    using that by (simp add: interparcelParams_def shipmentType_def)
  have 12: "p_weight (quotePageParams input) = weight input \<and>
    p_length (quotePageParams input) = length_dim input \<and>
    p_width (quotePageParams input) = width input \<and>
    p_height (quotePageParams input) = height input \<and>
    p_t (quotePageParams input) = shipmentType input"
    by (simp add: quotePageParams_def)
  show ?thesis
    apply (intro conjI allI impI)
    using 1 2 3 4 5 6 7 8 9 10 11 12 by blast+
qed

text \<open>
  The instances at 35 kg, 36 kg and 34 kg, for a parcel of 50 by 40 by 30, and the first
  two requests at 36 kg.
\<close>

theorem freight_query_shape_witness:
  "hd (fst (getInterparcelShippingServices workingEnv (exampleInput 35 ''AU''))) =
     Fetch (AvailabilityReq
       \<lparr>pkg_0_0 = 35, pkg_0_1 = 50, pkg_0_2 = 40, pkg_0_3 = 30, source = ''booking'',
        coll_country = ''Australia'', coll_state = ''VIC'', coll_city = ''Knoxfield'',
        coll_postcode = ''3180'', del_postcode = ''3000'', del_city = ''Melbourne'',
        del_state = ''VIC'', del_country = ''AU''\<rparr> ''pallet'') \<and>
   hd (fst (getInterparcelShippingServices workingEnv (exampleInput 36 ''AU''))) =
     Fetch (AvailabilityReq
       \<lparr>pkg_0_0 = 36, pkg_0_1 = 80, pkg_0_2 = 70, pkg_0_3 = 40, source = ''booking'',
        coll_country = ''Australia'', coll_state = ''VIC'', coll_city = ''Knoxfield'',
        coll_postcode = ''3180'', del_postcode = ''3000'', del_city = ''Melbourne'',
        del_state = ''VIC'', del_country = ''AU''\<rparr> ''pallet'') \<and>
   hd (fst (getInterparcelShippingServices workingEnv (exampleInput 34 ''AU''))) =
     Fetch (AvailabilityReq
       \<lparr>pkg_0_0 = 34, pkg_0_1 = 50, pkg_0_2 = 40, pkg_0_3 = 30, source = ''booking'',
        coll_country = ''Australia'', coll_state = ''VIC'', coll_city = ''Knoxfield'',
        coll_postcode = ''3180'', del_postcode = ''3000'', del_city = ''Melbourne'',
        del_state = ''VIC'', del_country = ''AU''\<rparr> ''parcel'') \<and>
   take 2 (fst (getInterparcelShippingServices workingEnv (exampleInput 36 ''AU''))) =
     [Fetch (AvailabilityReq
        \<lparr>pkg_0_0 = 36, pkg_0_1 = 80, pkg_0_2 = 70, pkg_0_3 = 40, source = ''booking'',
         coll_country = ''Australia'', coll_state = ''VIC'', coll_city = ''Knoxfield'',
         coll_postcode = ''3180'', del_postcode = ''3000'', del_city = ''Melbourne'',
         del_state = ''VIC'', del_country = ''AU''\<rparr> ''pallet''),
      Fetch (QuotePageReq
        (SelectService
           \<lparr>p_weight = 36, p_length = 50, p_width = 40, p_height = 30, p_t = ''pallet'',
            p_ct = ''Knoxfield'', p_cs = ''VIC'', p_cp = ''3180'', p_cc = ''Australia'',
            p_dt = ''Melbourne'', p_ds = ''VIC'', p_dp = ''3000'', p_dc = ''AU''\<rparr>) [])]"
  using freight_query_shape [of workingEnv "exampleInput 35 ''AU''"]
    freight_query_shape [of workingEnv "exampleInput 36 ''AU''"]
    freight_query_shape [of workingEnv "exampleInput 34 ''AU''"]
  by (simp add: interparcelParams_def shipmentType_def quotePageParams_def exampleInput_def
        partedEuroAddress_def orEmpty_def workingEnv_fields padding_of_examples)

text \<open>
  C9 as it is stated has the dimensions that are sent padded whenever \<open>weight > 35\<close>.
  At 36 kg the availability query carries 80 by 70 by 40, and the request that follows
  it, for the page that opens the session, carries 50 by 40 by 30.
\<close>

theorem session_page_unpadded_counterexample:
  "weight (exampleInput 36 ''AU'') > 35 \<and>
   length_dim (exampleInput 36 ''AU'') = 50 \<and>
   take 2 (fst (getInterparcelShippingServices workingEnv (exampleInput 36 ''AU''))) =
     [Fetch (AvailabilityReq
        \<lparr>pkg_0_0 = 36, pkg_0_1 = 80, pkg_0_2 = 70, pkg_0_3 = 40, source = ''booking'',
         coll_country = ''Australia'', coll_state = ''VIC'', coll_city = ''Knoxfield'',
         coll_postcode = ''3180'', del_postcode = ''3000'', del_city = ''Melbourne'',
         del_state = ''VIC'', del_country = ''AU''\<rparr> ''pallet''),
      Fetch (QuotePageReq
        (SelectService
           \<lparr>p_weight = 36, p_length = 50, p_width = 40, p_height = 30, p_t = ''pallet'',
            p_ct = ''Knoxfield'', p_cs = ''VIC'', p_cp = ''3180'', p_cc = ''Australia'',
            p_dt = ''Melbourne'', p_ds = ''VIC'', p_dp = ''3000'', p_dc = ''AU''\<rparr>) [])]"
proof -
  have "take 2 (fst (getInterparcelShippingServices workingEnv (exampleInput 36 ''AU''))) =
           [Fetch (AvailabilityReq (interparcelParams (exampleInput 36 ''AU''))
                     (shipmentType (exampleInput 36 ''AU''))),
            Fetch (QuotePageReq (SelectService (quotePageParams (exampleInput 36 ''AU''))) [])]"
    by (rule getInterparcel_page [where avail = "\<lparr>errorMessage = [], services = exampleServices\<rparr>"])
       (simp_all add: workingEnv_fields)
  then show ?thesis
    by (simp add: interparcelParams_def shipmentType_def quotePageParams_def exampleInput_def
          partedEuroAddress_def orEmpty_def padding_of_examples)
qed

subsection \<open>C10: no pickup option outside the country\<close>

text \<open>
  Claim C10. For a destination other than \<open>AU\<close>, a list returned by
  \<open>getShippingServices\<close> does not contain the option \<open>Pickup from Parted Euro\<close>, and
  none of its options has that name: the pickup option enters the list only on the
  branches with \<open>destinationCountry = AU\<close>.
\<close>

theorem no_pickup_abroad:
  assumes "destinationCountry input \<noteq> ''AU''"
    and "snd (getShippingServices e a input) = Inr xs"
  shows "pickupShippingOption \<notin> set xs \<and>
         (\<forall>x \<in> set xs. display_name (shipping_rate_data x) \<noteq> ''Pickup from Parted Euro'')"
proof -
  have names: "\<forall>x \<in> set xs. display_name (shipping_rate_data x) \<noteq> ''Pickup from Parted Euro''"
  proof (cases "weight input \<ge> 20")
    case True
    from assms obtain ys where ys: "snd (getInterparcelShippingServices e input) = Inr ys"
      and xs: "xs = adminPrefix a @ ys"
      by (auto simp: heavy_result [OF True] split: sum.splits)
    from getInterparcel_not_pickup [OF ys] adminPrefix_not_pickup [of a] xs
    show ?thesis by auto
  next
    case False
    show ?thesis
    proof (cases "allUnder105 input")
      case True
      from assms True obtain ys
        where ys: "snd (getAusPostInternationalShippingServices e input) = Inr ys"
          and xs: "xs = adminPrefix a @ ys"
        by (auto simp: foreign_light [OF False assms(1)] split: sum.splits prod.splits)
      from getInternational_not_pickup [OF ys] adminPrefix_not_pickup [of a] xs
      show ?thesis by auto
    next
      case big: False
      from assms big obtain ys where ys: "snd (getInterparcelShippingServices e input) = Inr ys"
        and xs: "xs = adminPrefix a @ ys"
        by (auto simp: foreign_light [OF False assms(1)] split: sum.splits prod.splits)
      from getInterparcel_not_pickup [OF ys] adminPrefix_not_pickup [of a] xs
      show ?thesis by auto
    qed
  qed
  with pickup_name show ?thesis by metis
qed

text \<open>
  The instances for an administrator on the three branches that serve another country:
  25 kg, 5 kg, and 5 kg with a length of 120, to \<open>US\<close>.
\<close>

theorem no_pickup_abroad_witness:
  "snd (getShippingServices workingEnv (Some True) (exampleInput 25 ''US'')) =
     Inr [adminShippingOption,
          fixedAmountOption 4550 ''TNT - Road Express'',
          fixedAmountOption 3000 ''Aramex - Parcel'',
          fixedAmountOption 12000 ''Northline - Freight'',
          fixedAmountOption 8025 ''Direct Freight - Express''] \<and>
   snd (getShippingServices workingEnv (Some True) (exampleInput 5 ''US'')) =
     Inr [adminShippingOption,
          fixedAmountOption 3215 ''Standard'', fixedAmountOption 4715 ''Express''] \<and>
   (pickupShippingOption :: real StripeShippingOption) \<notin>
     set [adminShippingOption,
          fixedAmountOption 4550 ''TNT - Road Express'',
          fixedAmountOption 3000 ''Aramex - Parcel'',
          fixedAmountOption 12000 ''Northline - Freight'',
          fixedAmountOption 8025 ''Direct Freight - Express''] \<and>
   (pickupShippingOption :: real StripeShippingOption) \<notin>
     set [adminShippingOption,
          fixedAmountOption 3215 ''Standard'', fixedAmountOption 4715 ''Express'']"
proof -
  have c: "destinationCountry (exampleInput 25 ''US'') \<noteq> ''AU''"
    "destinationCountry (exampleInput 5 ''US'') \<noteq> ''AU''"
    "destinationCountry (longInput 5 ''US'') \<noteq> ''AU''"
    by (simp_all add: exampleInput_fields longInput_fields)
  from no_pickup_abroad [OF c(1) workingEnv_heavy_US] no_pickup_abroad [OF c(2) workingEnv_light_US]
    no_pickup_abroad [OF c(3) workingEnv_long_US] workingEnv_heavy_US workingEnv_light_US
  show ?thesis by blast
qed

end
